theory Spec2Isabelle
  imports Complex_Main "HOL-Library.Word"
begin

section \<open>JavaScript numbers and nullable values\<close>

text \<open>
  The reader is TypeScript. A JavaScript number is a double: \<open>Fin r\<close> is the double
  whose value is the real \<open>r\<close>, and the three other values are the two infinities and
  \<^verbatim>\<open>NaN\<close>. The two zeros are one value here. Negation, comparison, \<^verbatim>\<open>Math.min\<close>,
  \<^verbatim>\<open>Math.max\<close> and \<^verbatim>\<open>Math.ceil\<close> of doubles are exact. A sum and a product of two
  finite doubles is the exact result rounded to a double; the rounding is not fixed by
  the model but is a parameter \<open>rnd\<close> of \<open>dbl_add\<close> and \<open>dbl_mul\<close>, with which the
  bounding box is computed. \<open>num_add\<close>, \<open>num_mul\<close> and \<open>num_div\<close> are the operations
  without rounding: they are the operations on doubles wherever the exact result is a
  double, as in the tile arithmetic of the facade, which works on tile indices and tile
  counts.
\<close>

datatype number = Fin real | PosInf | NegInf | NaN

text \<open>A value that may be \<^verbatim>\<open>undefined\<close> or \<^verbatim>\<open>null\<close>.\<close>

datatype 'a nullable = Undefined | Null | Val 'a

fun num_neg :: "number \<Rightarrow> number" where
  "num_neg (Fin a) = Fin (- a)"
| "num_neg PosInf = NegInf"
| "num_neg NegInf = PosInf"
| "num_neg NaN = NaN"

fun num_add :: "number \<Rightarrow> number \<Rightarrow> number" where
  "num_add (Fin a) (Fin b) = Fin (a + b)"
| "num_add NaN _ = NaN"
| "num_add _ NaN = NaN"
| "num_add PosInf NegInf = NaN"
| "num_add NegInf PosInf = NaN"
| "num_add PosInf _ = PosInf"
| "num_add _ PosInf = PosInf"
| "num_add NegInf _ = NegInf"
| "num_add _ NegInf = NegInf"

text \<open>An infinity times a finite number: \<open>pos\<close> tells the sign of the infinity.\<close>

definition inf_times :: "bool \<Rightarrow> real \<Rightarrow> number" where
  "inf_times pos a =
     (if a = 0 then NaN else if (0 < a) = pos then PosInf else NegInf)"

fun num_mul :: "number \<Rightarrow> number \<Rightarrow> number" where
  "num_mul (Fin a) (Fin b) = Fin (a * b)"
| "num_mul NaN _ = NaN"
| "num_mul _ NaN = NaN"
| "num_mul (Fin a) PosInf = inf_times True a"
| "num_mul (Fin a) NegInf = inf_times False a"
| "num_mul PosInf (Fin b) = inf_times True b"
| "num_mul NegInf (Fin b) = inf_times False b"
| "num_mul PosInf PosInf = PosInf"
| "num_mul NegInf NegInf = PosInf"
| "num_mul PosInf NegInf = NegInf"
| "num_mul NegInf PosInf = NegInf"

fun num_div :: "number \<Rightarrow> number \<Rightarrow> number" where
  "num_div (Fin a) (Fin b) =
     (if b \<noteq> 0 then Fin (a / b)
      else if a = 0 then NaN
      else if 0 < a then PosInf else NegInf)"
| "num_div NaN _ = NaN"
| "num_div _ NaN = NaN"
| "num_div (Fin a) _ = Fin 0"
| "num_div PosInf (Fin b) = (if 0 \<le> b then PosInf else NegInf)"
| "num_div NegInf (Fin b) = (if 0 \<le> b then NegInf else PosInf)"
| "num_div PosInf PosInf = NaN"
| "num_div PosInf NegInf = NaN"
| "num_div NegInf PosInf = NaN"
| "num_div NegInf NegInf = NaN"

text \<open>
  The operators \<^verbatim>\<open>+\<close> and \<^verbatim>\<open>*\<close> on doubles. \<open>rnd\<close> takes the exact sum or product
  of two finite doubles to the double that the operation returns (the nearest double, or
  an infinity when the result is too large). An operand that is not finite is treated as
  in \<open>num_add\<close> and \<open>num_mul\<close>, where nothing is rounded.
\<close>

definition dbl_add :: "(real \<Rightarrow> number) \<Rightarrow> number \<Rightarrow> number \<Rightarrow> number" where
  "dbl_add rnd a b =
     (case (a, b) of
        (Fin x, Fin y) \<Rightarrow> rnd (x + y)
      | _ \<Rightarrow> num_add a b)"

definition dbl_mul :: "(real \<Rightarrow> number) \<Rightarrow> number \<Rightarrow> number \<Rightarrow> number" where
  "dbl_mul rnd a b =
     (case (a, b) of
        (Fin x, Fin y) \<Rightarrow> rnd (x * y)
      | _ \<Rightarrow> num_mul a b)"

text \<open>\<^verbatim>\<open>Math.ceil\<close>.\<close>

fun Math_ceil :: "number \<Rightarrow> number" where
  "Math_ceil (Fin a) = Fin (of_int \<lceil>a\<rceil>)"
| "Math_ceil n = n"

text \<open>The comparison \<^verbatim>\<open>a > b\<close>: false as soon as one side is \<^verbatim>\<open>NaN\<close>.\<close>

fun num_gt :: "number \<Rightarrow> number \<Rightarrow> bool" where
  "num_gt (Fin a) (Fin b) = (b < a)"
| "num_gt PosInf (Fin _) = True"
| "num_gt PosInf NegInf = True"
| "num_gt (Fin _) NegInf = True"
| "num_gt _ _ = False"

text \<open>The comparison \<^verbatim>\<open>a <= b\<close>: false as soon as one side is \<^verbatim>\<open>NaN\<close>.\<close>

definition num_le :: "number \<Rightarrow> number \<Rightarrow> bool" where
  "num_le a b = (a \<noteq> NaN \<and> b \<noteq> NaN \<and> \<not> num_gt a b)"

text \<open>\<^verbatim>\<open>Math.min\<close> and \<^verbatim>\<open>Math.max\<close> of two numbers: \<^verbatim>\<open>NaN\<close> if one of them is.\<close>

definition Math_min :: "number \<Rightarrow> number \<Rightarrow> number" where
  "Math_min a b = (if a = NaN \<or> b = NaN then NaN else if num_gt a b then b else a)"

definition Math_max :: "number \<Rightarrow> number \<Rightarrow> number" where
  "Math_max a b = (if a = NaN \<or> b = NaN then NaN else if num_gt a b then a else b)"

text \<open>
  \<^verbatim>\<open>ToNumber\<close> of a value that is a number, \<^verbatim>\<open>null\<close> or \<^verbatim>\<open>undefined\<close>.
\<close>

fun toNumber :: "number nullable \<Rightarrow> number" where
  "toNumber Undefined = NaN"
| "toNumber Null = Fin 0"
| "toNumber (Val n) = n"

section \<open>Tag values\<close>

text \<open>
  A decoded tag value is a number or an array of numbers (a tag with a single element
  collapses to the number). The numbers are doubles of any kind: a tag of the type
  double or float can decode to an infinity or to \<^verbatim>\<open>NaN\<close>. The tags read by the
  functions modelled here are numeric and the source types them \<^verbatim>\<open>number\<close> and
  \<^verbatim>\<open>number[]\<close>; text values of ASCII tags are not represented.
\<close>

datatype tagval = Num number | Arr "number list"

text \<open>Reading element \<open>i\<close> of an array: \<^verbatim>\<open>undefined\<close> past the end.\<close>

definition js_nth :: "number list \<Rightarrow> nat \<Rightarrow> number nullable" where
  "js_nth xs i = (if i < length xs then Val (xs ! i) else Undefined)"

text \<open>
  Reading element \<open>i\<close> of a value typed \<^verbatim>\<open>number[]\<close>: a number has no indexed
  properties, so the read yields \<^verbatim>\<open>undefined\<close>.
\<close>

fun tag_nth :: "tagval \<Rightarrow> nat \<Rightarrow> number nullable" where
  "tag_nth (Arr xs) i = js_nth xs i"
| "tag_nth (Num r) i = Undefined"

text \<open>
  \<^verbatim>\<open>ToNumber\<close> of a tag value. An array converts through its string form: the empty
  array is \<open>0\<close>, a one-element array is its element, a longer one is \<^verbatim>\<open>NaN\<close>.
\<close>

fun tagToNumber :: "tagval nullable \<Rightarrow> number" where
  "tagToNumber Undefined = NaN"
| "tagToNumber Null = Fin 0"
| "tagToNumber (Val (Num r)) = r"
| "tagToNumber (Val (Arr [])) = Fin 0"
| "tagToNumber (Val (Arr [x])) = x"
| "tagToNumber (Val (Arr (x # y # zs))) = NaN"

section \<open>The image view: class CogTifImage\<close>

text \<open>
  The members of the enum \<^verbatim>\<open>TiffTag\<close> that the image view names. The enum itself is
  declared in \<^verbatim>\<open>read/tif\<close>, which is not among the sources; \<open>ImageHeight\<close> and
  \<open>TileHeight\<close> are the source's names for the tags ImageLength (257) and TileLength
  (323). \<open>OtherTag\<close> stands for every other member, by its code.
\<close>

datatype TiffTag =
    ImageWidth | ImageHeight | Compression | TileWidth | TileHeight
  | ModelPixelScale | ModelTiepoint | OtherTag nat

text \<open>
  \<^verbatim>\<open>CogTifTag\<close> is declared in \<^verbatim>\<open>read/cog.tif.tag\<close>, not among the sources. The image
  view reads its field \<^verbatim>\<open>value\<close> only.
\<close>

record CogTifTag =
  tag_value :: "tagval nullable"

text \<open>
  The class exists twice in the sources. The older one has the fields \<^verbatim>\<open>id\<close>,
  \<^verbatim>\<open>offset\<close> and \<^verbatim>\<open>tags\<close>; the newer one has a back-reference \<^verbatim>\<open>tif\<close> to the
  facade in addition. Functions of the older class carry the suffix \<open>_N\<close>, functions of
  the newer one the suffix \<open>_F\<close>. The type of the facade is a parameter.
\<close>

record CogTifImage =
  img_id :: nat
  img_offset :: nat
  tags :: "TiffTag \<rightharpoonup> CogTifTag"

record 'tif CogTifImage_F = CogTifImage +
  tif :: 'tif

text \<open>
  Every \<^verbatim>\<open>throw\<close> of the sources, by its message, and the failures of the runtime
  and of the byte source.
\<close>

datatype error =
    NoModelTiepoint     \<comment> \<open>\<^verbatim>\<open>Error('Tiff image does not have a ModelTiepoint')\<close>\<close>
  | NoModelPixelScale   \<comment> \<open>\<^verbatim>\<open>Error('Tiff image does not have a ModelPixelScale')\<close>\<close>
  | OnlyLittleEndian    \<comment> \<open>\<^verbatim>\<open>Error('Only little endian is supported')\<close>\<close>
  | OnlyTiff nat        \<comment> \<open>\<^verbatim>\<open>Error(`Only tiff supported version:${this.version}`)\<close>\<close>
  | OffsetOutOfRange    \<comment> \<open>\<^verbatim>\<open>Error('Offset out of range')\<close>\<close>
  | MissingZ int        \<comment> \<open>\<^verbatim>\<open>Error(`Missing z: ${z}`)\<close>\<close>
  | TileDoesNotExist int int int
                        \<comment> \<open>\<^verbatim>\<open>Error(`Tile ${x} ${y} ${z} does not exist`)\<close>\<close>
  | TypeError           \<comment> \<open>a property read on \<^verbatim>\<open>undefined\<close>\<close>
  | SourceError nat nat \<comment> \<open>the byte source failed to read (offset, length)\<close>
  | UnsupportedType nat \<comment> \<open>the byte source does not decode this tag type\<close>
  | BadRange            \<comment> \<open>the byte source was asked for a range that is not numbers\<close>

text \<open>\<^verbatim>\<open>value(tag)\<close>, the same text in both classes.\<close>

definition value_tag :: "'a CogTifImage_scheme \<Rightarrow> TiffTag \<Rightarrow> tagval nullable" where
  "value_tag img tag =
     (case tags img tag of
        None \<Rightarrow> Null
      | Some sourceTag \<Rightarrow> tag_value sourceTag)"

text \<open>
  \<^verbatim>\<open>get origin()\<close> of the older class: \<^verbatim>\<open>null\<close> unless the tie points are an array
  of length 6. A number is truthy or not, but has no \<^verbatim>\<open>length\<close>, so it ends in the
  last \<^verbatim>\<open>return null\<close> either way.
\<close>

definition origin_N :: "CogTifImage \<Rightarrow> number list option" where
  "origin_N img =
     (case value_tag img ModelTiepoint of
        Undefined \<Rightarrow> None
      | Null \<Rightarrow> None
      | Val (Num r) \<Rightarrow> None
      | Val (Arr tiePoints) \<Rightarrow>
          if length tiePoints = 6 then Some (drop 3 tiePoints) else None)"

text \<open>\<^verbatim>\<open>get origin()\<close> of the newer class: it throws where the older one returns null.\<close>

definition origin_F :: "'tif CogTifImage_F \<Rightarrow> error + number list" where
  "origin_F img =
     (case value_tag img ModelTiepoint of
        Undefined \<Rightarrow> Inl NoModelTiepoint
      | Null \<Rightarrow> Inl NoModelTiepoint
      | Val (Num r) \<Rightarrow> Inl NoModelTiepoint
      | Val (Arr tiePoints) \<Rightarrow>
          if length tiePoints \<noteq> 6 then Inl NoModelTiepoint
          else Inr (drop 3 tiePoints))"

text \<open>
  The array literal \<^verbatim>\<open>[modelPixelScale[0], -modelPixelScale[1], modelPixelScale[2]]\<close>.
\<close>

definition resolution_of :: "tagval \<Rightarrow> number nullable list" where
  "resolution_of modelPixelScale =
     [tag_nth modelPixelScale 0,
      Val (num_neg (toNumber (tag_nth modelPixelScale 1))),
      tag_nth modelPixelScale 2]"

definition resolution_N :: "CogTifImage \<Rightarrow> number nullable list option" where
  "resolution_N img =
     (case value_tag img ModelPixelScale of
        Undefined \<Rightarrow> None
      | Null \<Rightarrow> None
      | Val modelPixelScale \<Rightarrow> Some (resolution_of modelPixelScale))"

definition resolution_F :: "'tif CogTifImage_F \<Rightarrow> error + number nullable list" where
  "resolution_F img =
     (case value_tag img ModelPixelScale of
        Undefined \<Rightarrow> Inl NoModelPixelScale
      | Null \<Rightarrow> Inl NoModelPixelScale
      | Val modelPixelScale \<Rightarrow> Inr (resolution_of modelPixelScale))"

text \<open>\<^verbatim>\<open>get size()\<close>: an object with the two tag values, whatever they are.\<close>

record Size =
  width :: "tagval nullable"
  height :: "tagval nullable"

definition size_img :: "'a CogTifImage_scheme \<Rightarrow> Size" where
  "size_img img =
     \<lparr> width = value_tag img ImageWidth, height = value_tag img ImageHeight \<rparr>"

text \<open>Reading element \<open>i\<close> of the array that \<open>resolution\<close> returned.\<close>

definition res_nth :: "number nullable list \<Rightarrow> nat \<Rightarrow> number nullable" where
  "res_nth xs i = (if i < length xs then xs ! i else Undefined)"

text \<open>
  The body of \<^verbatim>\<open>get bbox()\<close> after its null test, the same text in both classes. The
  sum and the product are those of doubles, with the rounding \<open>rnd\<close>.
\<close>

definition bbox_of ::
  "(real \<Rightarrow> number) \<Rightarrow> Size \<Rightarrow> number list \<Rightarrow> number nullable list \<Rightarrow> number list" where
  "bbox_of rnd sz origin resolution =
     (let x1 = toNumber (js_nth origin 0);
          y1 = toNumber (js_nth origin 1);
          x2 = dbl_add rnd x1
                 (dbl_mul rnd (toNumber (res_nth resolution 0)) (tagToNumber (width sz)));
          y2 = dbl_add rnd y1
                 (dbl_mul rnd (toNumber (res_nth resolution 1)) (tagToNumber (height sz)))
      in [Math_min x1 x2, Math_min y1 y2, Math_max x1 x2, Math_max y1 y2])"

text \<open>
  \<^verbatim>\<open>get bbox()\<close> of the older class. \<open>size\<close> is an object and never null, so the
  test \<^verbatim>\<open>size == null\<close> has no branch here.
\<close>

definition bbox_N :: "(real \<Rightarrow> number) \<Rightarrow> CogTifImage \<Rightarrow> number list option" where
  "bbox_N rnd img =
     (let sz = size_img img; origin = origin_N img; resolution = resolution_N img in
      case origin of
        None \<Rightarrow> None
      | Some orig \<Rightarrow>
          (case resolution of
             None \<Rightarrow> None
           | Some res \<Rightarrow> Some (bbox_of rnd sz orig res)))"

text \<open>
  \<^verbatim>\<open>get bbox()\<close> of the newer class: \<open>origin\<close> is read first and throws first, then
  \<open>resolution\<close>. Neither returns null, so the null test never fires.
\<close>

definition bbox_F ::
  "(real \<Rightarrow> number) \<Rightarrow> 'tif CogTifImage_F \<Rightarrow> error + number list" where
  "bbox_F rnd img =
     (let sz = size_img img in
      case origin_F img of
        Inl e \<Rightarrow> Inl e
      | Inr orig \<Rightarrow>
          (case resolution_F img of
             Inl e \<Rightarrow> Inl e
           | Inr res \<Rightarrow> Inr (bbox_of rnd sz orig res)))"

text \<open>
  Modelled from the spec: the table \<^verbatim>\<open>TiffCompression\<close> of \<^verbatim>\<open>read/tif\<close>, which is not
  among the sources. The spec gives it as the compression to media-type table
  \<open>1 \<rightarrow> none\<close>, \<open>5 \<rightarrow> image/x-lzw\<close>, \<open>6 \<rightarrow> image/jpeg\<close>, \<open>7 \<rightarrow> image/jpeg\<close>,
  \<open>8 \<rightarrow> image/deflate\<close>, \<open>34712 \<rightarrow> image/jp2\<close>, \<open>50001 \<rightarrow> image/webp\<close>. A key
  that the table does not hold has no entry.
\<close>

definition TiffCompression :: "real \<Rightarrow> string option" where
  "TiffCompression c =
     (if c = 1 then Some ''none''
      else if c = 5 then Some ''image/x-lzw''
      else if c = 6 then Some ''image/jpeg''
      else if c = 7 then Some ''image/jpeg''
      else if c = 8 then Some ''image/deflate''
      else if c = 34712 then Some ''image/jp2''
      else if c = 50001 then Some ''image/webp''
      else None)"

text \<open>Indexing the table object: \<^verbatim>\<open>undefined\<close> for a key it does not hold.\<close>

definition table_get :: "('k \<Rightarrow> 'v option) \<Rightarrow> 'k \<Rightarrow> 'v nullable" where
  "table_get t k = (case t k of None \<Rightarrow> Undefined | Some v \<Rightarrow> Val v)"

text \<open>
  Indexing a table of compression codes by a number: the key is the string form of the
  number, and the table has no entry under \<^verbatim>\<open>Infinity\<close>, \<^verbatim>\<open>-Infinity\<close> or
  \<^verbatim>\<open>NaN\<close>.
\<close>

fun code_key :: "(real \<Rightarrow> 'v option) \<Rightarrow> number \<Rightarrow> 'v option" where
  "code_key t (Fin c) = t c"
| "code_key t n = None"

text \<open>
  \<^verbatim>\<open>get compression()\<close>, the same text in both classes: null unless the tag value is
  a number (\<^verbatim>\<open>typeof compression !== 'number'\<close> holds for an array), else the table
  entry.
\<close>

definition compression :: "'a CogTifImage_scheme \<Rightarrow> string nullable" where
  "compression img =
     (case value_tag img Compression of
        Undefined \<Rightarrow> Null
      | Null \<Rightarrow> Null
      | Val (Arr xs) \<Rightarrow> Null
      | Val (Num c) \<Rightarrow> table_get (code_key TiffCompression) c)"

text \<open>\<^verbatim>\<open>get tileInfo()\<close> and \<^verbatim>\<open>get tileCount()\<close> of the older class.\<close>

definition tileInfo :: "'a CogTifImage_scheme \<Rightarrow> Size" where
  "tileInfo img =
     \<lparr> width = value_tag img TileWidth, height = value_tag img TileHeight \<rparr>"

record TileCount =
  nx :: number
  ny :: number
  total :: number

definition tileCount :: "'a CogTifImage_scheme \<Rightarrow> TileCount" where
  "tileCount img =
     (let sz = size_img img;
          ti = tileInfo img;
          nx = Math_ceil (num_div (tagToNumber (width sz)) (tagToNumber (width ti)));
          ny = Math_ceil (num_div (tagToNumber (height sz)) (tagToNumber (height ti)))
      in \<lparr> nx = nx, ny = ny, total = num_mul nx ny \<rparr>)"

section \<open>The byte source\<close>

type_synonym byte = "8 word"

text \<open>
  A call that awaits the byte source: from the state of the source to a result or an
  error, and the state after the call.
\<close>

type_synonym ('s, 'a) io = "'s \<Rightarrow> (error + 'a) \<times> 's"

definition return :: "'a \<Rightarrow> ('s, 'a) io" where
  "return a s = (Inr a, s)"

definition throw :: "error \<Rightarrow> ('s, 'a) io" where
  "throw e s = (Inl e, s)"

text \<open>\<^verbatim>\<open>const a = await m; k(a)\<close>: a rejected promise ends the caller.\<close>

definition await :: "('s, 'a) io \<Rightarrow> ('a \<Rightarrow> ('s, 'b) io) \<Rightarrow> ('s, 'b) io" where
  "await m k s = (case m s of (Inl e, s') \<Rightarrow> (Inl e, s') | (Inr a, s') \<Rightarrow> k a s')"

text \<open>
  The class \<^verbatim>\<open>CogSource\<close> is not among the sources: the facade receives a source
  in its constructor and calls these five methods of it. They are parameters of the
  model, over any type \<open>'s\<close> of source states (the chunks fetched so far). The offsets
  that the parser passes are sums and products of unsigned integers that the source
  returned; \<open>getBytes\<close> receives whatever the tile arrays hold at an index.
  \<open>hasBytes\<close> is synchronous and has an optional second argument.
\<close>

record 's CogSource =
  uint16 :: "nat \<Rightarrow> ('s, nat) io"
  uint32 :: "nat \<Rightarrow> ('s, nat) io"
  hasBytes :: "nat \<Rightarrow> nat option \<Rightarrow> 's \<Rightarrow> bool"
  readType :: "nat \<Rightarrow> nat \<Rightarrow> nat \<Rightarrow> ('s, tagval) io"
  getBytes :: "number nullable \<Rightarrow> number nullable \<Rightarrow> ('s, byte list) io"

section \<open>The facade: class CogLayer\<close>

text \<open>
  Modelled from the spec: the table \<^verbatim>\<open>TIFF_TAG\<close> of \<^verbatim>\<open>tif\<close>, from tag code to tag
  name, which is not among the sources. These are the supported tags that the spec
  lists; the facade reads the names Compression, ImageLength, TileLength, TileOffsets
  and TileByteCounts from a parsed image.
\<close>

definition TIFF_TAG :: "nat \<Rightarrow> string option" where
  "TIFF_TAG =
     map_of
       [(256, ''ImageWidth''), (257, ''ImageLength''), (258, ''BitsPerSample''),
        (259, ''Compression''), (262, ''PhotometricInterpretation''),
        (277, ''SamplesPerPixel''), (322, ''TileWidth''), (323, ''TileLength''),
        (324, ''TileOffsets''), (325, ''TileByteCounts''), (339, ''SampleFormat''),
        (33550, ''ModelPixelScale''), (33922, ''ModelTiepoint''),
        (34735, ''GeoKeyDirectory''), (34736, ''GeoDoubleParams''),
        (34737, ''GeoAsciiParams'')]"

text \<open>
  Modelled from the spec: the table \<^verbatim>\<open>TIFF_SIZE\<close> of \<^verbatim>\<open>tif\<close>, from tag type to
  the size of one element (its field \<^verbatim>\<open>length\<close>), which is not among the sources.
  The spec lists the types in the order of their codes 1 to 12: byte(1), ascii(1),
  short(2), long(4), rational(8), sbyte(1), undefined(1), sshort(2), slong(4),
  srational(8), float(4), double(8).
\<close>

definition TIFF_SIZE :: "nat \<Rightarrow> nat option" where
  "TIFF_SIZE =
     map_of
       [(1, 1), (2, 1), (3, 2), (4, 4), (5, 8), (6, 1),
        (7, 1), (8, 2), (9, 4), (10, 8), (11, 4), (12, 8)]"

text \<open>
  Modelled from the spec: the table \<^verbatim>\<open>TIFF_COMPRESSION\<close> of \<^verbatim>\<open>tif\<close>, which is not
  among the sources: the compression to media-type table of the spec.
\<close>

definition TIFF_COMPRESSION :: "real \<Rightarrow> string option" where
  "TIFF_COMPRESSION = TiffCompression"

text \<open>
  What \<open>readIfd\<close> stores under a tag name: the decoded value, or the closure
  \<^verbatim>\<open>() => this.source.readType(valueOffset, tagType, count)\<close>, held by the three
  variables that it closes over.
\<close>

datatype tagv = Eager tagval | Lazy nat nat nat

text \<open>
  A parsed image is a plain object from tag names to what was stored; a name that was
  never stored reads as \<^verbatim>\<open>undefined\<close>.
\<close>

type_synonym CogImage = "string \<rightharpoonup> tagv"

text \<open>
  The body of the \<^verbatim>\<open>for\<close> loop of \<open>readIfd\<close>, for the entry at \<open>pos\<close>. An unknown
  tag code leaves the image as it is (\<^verbatim>\<open>continue\<close>). An unknown tag type makes
  \<open>typeSize\<close> undefined, and reading \<^verbatim>\<open>typeSize.length\<close> throws, after the count
  was read. The assignment \<^verbatim>\<open>image[tiffTag] = ...\<close> replaces what the name held.
\<close>

definition readEntry :: "'s CogSource \<Rightarrow> nat \<Rightarrow> CogImage \<Rightarrow> ('s, CogImage) io" where
  "readEntry src pos img =
     await (uint16 src pos) (\<lambda>tagCode.
     case TIFF_TAG tagCode of
       None \<Rightarrow> return img
     | Some tiffTag \<Rightarrow>
         await (uint16 src (pos + 2)) (\<lambda>tagType.
         await (uint32 src (pos + 4)) (\<lambda>count.
         case TIFF_SIZE tagType of
           None \<Rightarrow> throw TypeError
         | Some typeSize \<Rightarrow>
             let tagLen = count * typeSize in
             if tagLen \<le> 4 then
               await (readType src (pos + 8) tagType count) (\<lambda>v.
               return (img(tiffTag \<mapsto> Eager v)))
             else
               await (uint32 src (pos + 8)) (\<lambda>valueOffset s.
               if \<not> hasBytes src valueOffset (Some tagLen) s then
                 return (img(tiffTag \<mapsto> Lazy valueOffset tagType count)) s
               else
                 await (readType src valueOffset tagType count) (\<lambda>v.
                 return (img(tiffTag \<mapsto> Eager v))) s))))"

text \<open>The loop \<^verbatim>\<open>for (let i = 0; i < tagCount; i++)\<close>, from the index \<open>i\<close> on.\<close>

function readIfd_loop ::
  "'s CogSource \<Rightarrow> nat \<Rightarrow> nat \<Rightarrow> nat \<Rightarrow> CogImage \<Rightarrow> ('s, CogImage) io" where
  "readIfd_loop src byteStart tagCount i img s =
     (if i < tagCount then
        (case readEntry src (byteStart + 12 * i) img s of
           (Inl e, s') \<Rightarrow> (Inl e, s')
         | (Inr img', s') \<Rightarrow> readIfd_loop src byteStart tagCount (i + 1) img' s')
      else (Inr img, s))"
  by pat_completeness auto
termination
  by (relation "measure (\<lambda>(src, byteStart, tagCount, i, img, s). tagCount - i)") auto

declare readIfd_loop.simps [simp del]

record Ifd =
  nextOffset :: nat
  ifd_image :: CogImage

definition readIfd :: "'s CogSource \<Rightarrow> nat \<Rightarrow> ('s, Ifd) io" where
  "readIfd src offset =
     await (uint16 src offset) (\<lambda>tagCount.
     let byteStart = offset + 2 in
     await (readIfd_loop src byteStart tagCount 0 Map.empty) (\<lambda>img.
     await (uint32 src (offset + tagCount * 12 + 2)) (\<lambda>next.
     return \<lparr> nextOffset = next, ifd_image = img \<rparr>)))"

text \<open>
  The fields of the facade. \<open>source\<close> holds the state of the byte source; \<open>version\<close>
  and \<open>isLittleEndian\<close> have no initial value.
\<close>

record 's CogLayer =
  source :: 's
  version :: "nat option"
  isLittleEndian :: "bool option"
  isBigTiff :: bool
  images :: "CogImage list"

definition VERSION_TIFF :: nat where "VERSION_TIFF = 42"
definition VERSION_BIGTIFF :: nat where "VERSION_BIGTIFF = 43"
definition ENDIAN_BIG :: nat where "ENDIAN_BIG = 0x4D4D"
definition ENDIAN_LITTLE :: nat where "ENDIAN_LITTLE = 0x4949"

text \<open>The facade as the constructor leaves it.\<close>

definition new_CogLayer :: "'s \<Rightarrow> 's CogLayer" where
  "new_CogLayer s =
     \<lparr> source = s, version = None, isLittleEndian = None, isBigTiff = False, images = [] \<rparr>"

text \<open>
  \<open>processIfd\<close> walks the chain of directories by recursion, as long as the next
  offset is not zero. A chain that loops back never ends: not returning is \<open>None\<close>.
  The image is pushed before the next offset is looked at.
\<close>

partial_function (option) processIfd ::
  "'s CogSource \<Rightarrow> nat \<Rightarrow> 's CogLayer \<Rightarrow> ((error + unit) \<times> 's CogLayer) option" where
  "processIfd src offset L =
     (case readIfd src offset (source L) of
        (Inl e, s') \<Rightarrow> Some (Inl e, L\<lparr> source := s' \<rparr>)
      | (Inr ifd, s') \<Rightarrow>
          (let L' = L\<lparr> source := s', images := images L @ [ifd_image ifd] \<rparr> in
           if nextOffset ifd \<noteq> 0 then processIfd src (nextOffset ifd) L'
           else Some (Inr (), L')))"

definition fetchHeader ::
  "'s CogSource \<Rightarrow> 's CogLayer \<Rightarrow> ((error + unit) \<times> 's CogLayer) option" where
  "fetchHeader src L =
     (case uint16 src 0 (source L) of
        (Inl e, s1) \<Rightarrow> Some (Inl e, L\<lparr> source := s1 \<rparr>)
      | (Inr endian, s1) \<Rightarrow>
          (let L1 = L\<lparr> source := s1, isLittleEndian := Some (endian = ENDIAN_LITTLE) \<rparr> in
           if endian \<noteq> ENDIAN_LITTLE then Some (Inl OnlyLittleEndian, L1)
           else
             (case uint16 src 2 (source L1) of
                (Inl e, s2) \<Rightarrow> Some (Inl e, L1\<lparr> source := s2 \<rparr>)
              | (Inr v, s2) \<Rightarrow>
                  (let L2 = L1\<lparr> source := s2, version := Some v \<rparr> in
                   if v = VERSION_BIGTIFF then Some (Inl (OnlyTiff v), L2)
                   else if v \<noteq> VERSION_TIFF then Some (Inl (OnlyTiff v), L2)
                   else
                     (case uint32 src 4 (source L2) of
                        (Inl e, s3) \<Rightarrow> Some (Inl e, L2\<lparr> source := s3 \<rparr>)
                      | (Inr offset, s3) \<Rightarrow>
                          (let L3 = L2\<lparr> source := s3 \<rparr> in
                           if \<not> hasBytes src offset None (source L3)
                           then Some (Inl OffsetOutOfRange, L3)
                           else processIfd src offset L3))))))"

definition init ::
  "'s CogSource \<Rightarrow> 's CogLayer \<Rightarrow> ((error + unit) \<times> 's CogLayer) option" where
  "init src L = fetchHeader src L"

subsection \<open>getTileRaw\<close>

text \<open>\<^verbatim>\<open>this.images[z]\<close>: \<^verbatim>\<open>undefined\<close> unless \<open>z\<close> is an index of the array.\<close>

definition images_at :: "'a list \<Rightarrow> int \<Rightarrow> 'a option" where
  "images_at xs z = (if 0 \<le> z \<and> nat z < length xs then Some (xs ! nat z) else None)"

text \<open>
  \<^verbatim>\<open>ToNumber\<close> of a property of the image: \<^verbatim>\<open>NaN\<close> for a missing property and for
  a closure.
\<close>

fun propToNumber :: "tagv option \<Rightarrow> number" where
  "propToNumber None = NaN"
| "propToNumber (Some (Eager v)) = tagToNumber (Val v)"
| "propToNumber (Some (Lazy valueOffset tagType count)) = NaN"

text \<open>
  \<^verbatim>\<open>TIFF_COMPRESSION[image.Compression]\<close>. The key of the lookup is the string
  form of the value, which for a one-element array is that of its element; no other
  value has the string form of a number.
\<close>

fun mime_of :: "tagv option \<Rightarrow> string option" where
  "mime_of (Some (Eager (Num c))) = code_key TIFF_COMPRESSION c"
| "mime_of (Some (Eager (Arr [c]))) = code_key TIFF_COMPRESSION c"
| "mime_of _ = None"

text \<open>
  \<^verbatim>\<open>p.length\<close> for a property \<open>p\<close> of the image: a TypeError when \<open>p\<close> is
  undefined, the length of an array, \<^verbatim>\<open>undefined\<close> for a number, and \<open>0\<close> for the
  closure, an arrow function without parameters.
\<close>

fun prop_length :: "tagv option \<Rightarrow> error + number nullable" where
  "prop_length None = Inl TypeError"
| "prop_length (Some (Eager (Arr xs))) = Inr (Val (Fin (real (length xs))))"
| "prop_length (Some (Eager (Num r))) = Inr Undefined"
| "prop_length (Some (Lazy valueOffset tagType count)) = Inr (Val (Fin 0))"

text \<open>
  A number as an array index: it names an element only when it is a natural number.
\<close>

fun as_index :: "number \<Rightarrow> nat option" where
  "as_index (Fin r) = (if 0 \<le> r \<and> of_int \<lfloor>r\<rfloor> = r then Some (nat \<lfloor>r\<rfloor>) else None)"
| "as_index _ = None"

text \<open>
  \<^verbatim>\<open>p[idx]\<close> for a property \<open>p\<close> of the image: a TypeError when \<open>p\<close> is undefined,
  the element of an array when \<open>idx\<close> is one of its indices, \<^verbatim>\<open>undefined\<close>
  otherwise, also for a number and for the closure.
\<close>

fun prop_index :: "tagv option \<Rightarrow> number \<Rightarrow> error + number nullable" where
  "prop_index None idx = Inl TypeError"
| "prop_index (Some (Eager (Arr xs))) idx =
     Inr (case as_index idx of None \<Rightarrow> Undefined | Some i \<Rightarrow> js_nth xs i)"
| "prop_index (Some (Eager (Num r))) idx = Inr Undefined"
| "prop_index (Some (Lazy valueOffset tagType count)) idx = Inr Undefined"

record Tile =
  mimeType :: "string option"
  bytes :: "byte list"

text \<open>
  \<open>getTileRaw\<close>, for integer arguments. It reads the images and awaits the source
  once; it assigns to no field of the facade and to no property of an image. The
  quotient, the product and the sum of the index are taken without rounding, which is
  what the doubles give for image sizes, tile sizes and tile indices below \<open>2^32\<close>.
\<close>

definition getTileRaw ::
  "'s CogSource \<Rightarrow> 's CogLayer \<Rightarrow> int \<Rightarrow> int \<Rightarrow> int \<Rightarrow> (error + Tile) \<times> 's CogLayer" where
  "getTileRaw src L x y z =
     (case images_at (images L) z of
        None \<Rightarrow> (Inl (MissingZ z), L)
      | Some img \<Rightarrow>
          (let mime = mime_of (img ''Compression'');
               nyTiles = Math_ceil (num_div (propToNumber (img ''ImageLength''))
                                            (propToNumber (img ''TileLength'')));
               idx = num_add (num_mul (Fin (of_int y)) nyTiles) (Fin (of_int x))
           in
           case prop_length (img ''TileOffsets'') of
             Inl e \<Rightarrow> (Inl e, L)
           | Inr len \<Rightarrow>
               if num_gt idx (toNumber len) then (Inl (TileDoesNotExist x y z), L)
               else
                 (case prop_index (img ''TileOffsets'') idx of
                    Inl e \<Rightarrow> (Inl e, L)
                  | Inr offset \<Rightarrow>
                      (case prop_index (img ''TileByteCounts'') idx of
                         Inl e \<Rightarrow> (Inl e, L)
                       | Inr byteCount \<Rightarrow>
                           (case getBytes src offset byteCount (source L) of
                              (Inl e, s') \<Rightarrow> (Inl e, L\<lparr> source := s' \<rparr>)
                            | (Inr bs, s') \<Rightarrow>
                                (Inr \<lparr> mimeType = mime, bytes = bs \<rparr>,
                                 L\<lparr> source := s' \<rparr>))))))"

section \<open>An in-memory byte source\<close>

text \<open>
  Modelled from the spec: a byte source over a byte string, with fixed-size chunks. The
  state is the set of chunk ids that are ready. A read covers the chunks
  \<open>offset div chunk_size\<close> to \<open>(offset + length - 1) div chunk_size\<close> and makes them
  ready; \<open>has_bytes\<close> holds when all covered chunks are ready. Integers are
  little-endian. The spec does not say what a read past the end of the source returns:
  with \<open>zeroFill\<close> the missing bytes read as zero, without it the read fails. Of the tag
  types, only the unsigned integers byte (1), short (3) and long (4) are decoded; a tag
  with one element collapses to the number.
\<close>

record MemSource =
  data :: "byte list"
  chunkSize :: nat
  zeroFill :: bool

definition chunk_ids :: "nat \<Rightarrow> nat \<Rightarrow> nat \<Rightarrow> nat set" where
  "chunk_ids cs off len = {off div cs .. (off + len - 1) div cs}"

definition mem_bytes :: "MemSource \<Rightarrow> nat \<Rightarrow> nat \<Rightarrow> byte list option" where
  "mem_bytes m off len =
     (if off + len \<le> length (data m) then Some (take len (drop off (data m)))
      else if zeroFill m then Some (take len (drop off (data m) @ replicate len 0))
      else None)"

definition mem_read :: "MemSource \<Rightarrow> nat \<Rightarrow> nat \<Rightarrow> (nat set, byte list) io" where
  "mem_read m off len s =
     (case mem_bytes m off len of
        None \<Rightarrow> (Inl (SourceError off len), s)
      | Some bs \<Rightarrow> (Inr bs, s \<union> chunk_ids (chunkSize m) off len))"

fun le_nat :: "byte list \<Rightarrow> nat" where
  "le_nat [] = 0"
| "le_nat (b # bs) = unat b + 256 * le_nat bs"

fun decode_elems :: "nat \<Rightarrow> nat \<Rightarrow> byte list \<Rightarrow> number list" where
  "decode_elems 0 sz bs = []"
| "decode_elems (Suc n) sz bs =
     Fin (real (le_nat (take sz bs))) # decode_elems n sz (drop sz bs)"

definition collapse :: "number list \<Rightarrow> tagval" where
  "collapse xs = (case xs of [x] \<Rightarrow> Num x | _ \<Rightarrow> Arr xs)"

definition mem_uint :: "MemSource \<Rightarrow> nat \<Rightarrow> nat \<Rightarrow> (nat set, nat) io" where
  "mem_uint m len off = await (mem_read m off len) (\<lambda>bs. return (le_nat bs))"

definition mem_hasBytes :: "MemSource \<Rightarrow> nat \<Rightarrow> nat option \<Rightarrow> nat set \<Rightarrow> bool" where
  "mem_hasBytes m off len s =
     (chunk_ids (chunkSize m) off (case len of None \<Rightarrow> 1 | Some l \<Rightarrow> l) \<subseteq> s)"

definition mem_readType :: "MemSource \<Rightarrow> nat \<Rightarrow> nat \<Rightarrow> nat \<Rightarrow> (nat set, tagval) io" where
  "mem_readType m off ty count =
     (if ty = 1 \<or> ty = 3 \<or> ty = 4 then
        (case TIFF_SIZE ty of
           None \<Rightarrow> throw (UnsupportedType ty)
         | Some sz \<Rightarrow>
             await (mem_read m off (count * sz)) (\<lambda>bs.
             return (collapse (decode_elems count sz bs))))
      else throw (UnsupportedType ty))"

definition mem_getBytes ::
  "MemSource \<Rightarrow> number nullable \<Rightarrow> number nullable \<Rightarrow> (nat set, byte list) io" where
  "mem_getBytes m off len =
     (case (as_index (toNumber off), as_index (toNumber len)) of
        (Some i, Some n) \<Rightarrow>
          (case (off, len) of
             (Val _, Val _) \<Rightarrow> mem_read m i n
           | _ \<Rightarrow> throw BadRange)
      | _ \<Rightarrow> throw BadRange)"

definition memSource :: "MemSource \<Rightarrow> nat set CogSource" where
  "memSource m =
     \<lparr> uint16 = mem_uint m 2,
       uint32 = mem_uint m 4,
       hasBytes = mem_hasBytes m,
       readType = mem_readType m,
       getBytes = mem_getBytes m \<rparr>"

section \<open>Predicates and test data\<close>



text \<open>
  A tag map of an image of 10 by 20 pixels, with its origin at (100, 200) and pixels of
  2 by 3 units, compressed as WebP.
\<close>

definition geo_tags :: "TiffTag \<rightharpoonup> CogTifTag" where
  "geo_tags =
     [ModelTiepoint \<mapsto> \<lparr> tag_value = Val (Arr [Fin 0, Fin 0, Fin 0, Fin 100, Fin 200, Fin 0]) \<rparr>,
      ModelPixelScale \<mapsto> \<lparr> tag_value = Val (Arr [Fin 2, Fin 3, Fin 0]) \<rparr>,
      ImageWidth \<mapsto> \<lparr> tag_value = Val (Num (Fin 10)) \<rparr>,
      ImageHeight \<mapsto> \<lparr> tag_value = Val (Num (Fin 20)) \<rparr>,
      Compression \<mapsto> \<lparr> tag_value = Val (Num (Fin 50001)) \<rparr>]"


definition image_N :: "(TiffTag \<rightharpoonup> CogTifTag) \<Rightarrow> CogTifImage" where
  "image_N tg = \<lparr> img_id = 0, img_offset = 8, tags = tg \<rparr>"

definition image_F :: "(TiffTag \<rightharpoonup> CogTifTag) \<Rightarrow> unit CogTifImage_F" where
  "image_F tg = \<lparr> img_id = 0, img_offset = 8, tags = tg, tif = () \<rparr>"

text \<open>
  The tags of the image of scenario S6 as the image view holds them: 600 by 400 pixels in
  tiles of 256 by 256.
\<close>

definition tags_600x400 :: "TiffTag \<rightharpoonup> CogTifTag" where
  "tags_600x400 =
     [ImageWidth \<mapsto> \<lparr> tag_value = Val (Num (Fin 600)) \<rparr>,
      ImageHeight \<mapsto> \<lparr> tag_value = Val (Num (Fin 400)) \<rparr>,
      TileWidth \<mapsto> \<lparr> tag_value = Val (Num (Fin 256)) \<rparr>,
      TileHeight \<mapsto> \<lparr> tag_value = Val (Num (Fin 256)) \<rparr>]"

text \<open>What \<open>readIfd\<close> stored is a decoded value, not a closure.\<close>

definition is_eager :: "tagv \<Rightarrow> bool" where
  "is_eager tv = (case tv of Eager v \<Rightarrow> True | Lazy valueOffset tagType count \<Rightarrow> False)"

text \<open>
  The rule of the spec for one directory entry, in the words of the spec: the entry at
  \<open>pos\<close>, read from the source in the state \<open>s\<close>, carries the known tag \<open>t\<close>, and the
  stored value \<open>tv\<close> is eager when \<open>count * type_size \<le> 4\<close> or when
  \<open>has_bytes(value_offset, value_length)\<close> holds at that time; otherwise it is the lazy
  value that carries \<open>(value_offset, type, count)\<close>.
\<close>

definition entry_rule :: "'s CogSource \<Rightarrow> nat \<Rightarrow> 's \<Rightarrow> string \<Rightarrow> tagv \<Rightarrow> bool" where
  "entry_rule src pos s t tv =
     (case uint16 src pos s of
        (Inl e, s1) \<Rightarrow> False
      | (Inr tagCode, s1) \<Rightarrow>
          TIFF_TAG tagCode = Some t \<and>
          (case uint16 src (pos + 2) s1 of
             (Inl e, s2) \<Rightarrow> False
           | (Inr tagType, s2) \<Rightarrow>
               (case uint32 src (pos + 4) s2 of
                  (Inl e, s3) \<Rightarrow> False
                | (Inr count, s3) \<Rightarrow>
                    (case TIFF_SIZE tagType of
                       None \<Rightarrow> False
                     | Some typeSize \<Rightarrow>
                         if count * typeSize \<le> 4 then is_eager tv
                         else
                           (case uint32 src (pos + 8) s3 of
                              (Inl e, s4) \<Rightarrow> False
                            | (Inr valueOffset, s4) \<Rightarrow>
                                if hasBytes src valueOffset (Some (count * typeSize)) s4
                                then is_eager tv
                                else tv = Lazy valueOffset tagType count)))))"

text \<open>
  What \<open>getTileRaw\<close> returns once the source has answered the one request for bytes
  that it makes.
\<close>

definition tile_result ::
  "'s CogLayer \<Rightarrow> string option \<Rightarrow> (error + byte list) \<times> 's \<Rightarrow> (error + Tile) \<times> 's CogLayer"
  where
  "tile_result L mime r =
     (case r of
        (Inl e, s') \<Rightarrow> (Inl e, L\<lparr> source := s' \<rparr>)
      | (Inr bs, s') \<Rightarrow> (Inr \<lparr> mimeType = mime, bytes = bs \<rparr>, L\<lparr> source := s' \<rparr>))"

text \<open>
  The ten bytes of the minimal header: little-endian, version 42, first directory at
  offset 8, and a tag count of 0 there. The bytes end where the offset of the next
  directory would start.
\<close>

definition S1_bytes :: "byte list" where
  "S1_bytes = [0x49, 0x49, 0x2A, 0x00, 0x08, 0x00, 0x00, 0x00, 0x00, 0x00]"

definition S1_strict :: MemSource where
  "S1_strict = \<lparr> data = S1_bytes, chunkSize = 65536, zeroFill = False \<rparr>"

definition S1_zero_fill :: MemSource where
  "S1_zero_fill = \<lparr> data = S1_bytes, chunkSize = 65536, zeroFill = True \<rparr>"

text \<open>
  A file with chunks of 32 bytes and one directory at offset 8 with three entries:
  ImageWidth (256), one short, inline, 600; TileOffsets (324), four longs at offset 200,
  in chunk 6; TileByteCounts (325), two longs at offset 50, in chunk 1, where the third
  entry itself lies. The next offset is 0.
\<close>

definition tif_three :: MemSource where
  "tif_three =
     \<lparr> data =
         [0x49, 0x49, 0x2A, 0x00, 0x08, 0x00, 0x00, 0x00,
          0x03, 0x00,
          0x00, 0x01, 0x03, 0x00, 0x01, 0x00, 0x00, 0x00, 0x58, 0x02, 0x00, 0x00,
          0x44, 0x01, 0x04, 0x00, 0x04, 0x00, 0x00, 0x00, 0xC8, 0x00, 0x00, 0x00,
          0x45, 0x01, 0x04, 0x00, 0x02, 0x00, 0x00, 0x00, 0x32, 0x00, 0x00, 0x00,
          0x00, 0x00, 0x00, 0x00,
          0x0A, 0x00, 0x00, 0x00, 0x14, 0x00, 0x00, 0x00],
       chunkSize = 32, zeroFill = False \<rparr>"

text \<open>The image that the directory of \<open>tif_three\<close> parses to.\<close>

definition ifd_three :: CogImage where
  "ifd_three =
     [''ImageWidth'' \<mapsto> Eager (Num (Fin 600)),
      ''TileOffsets'' \<mapsto> Lazy 200 4 4,
      ''TileByteCounts'' \<mapsto> Eager (Arr [Fin 10, Fin 20])]"

text \<open>
  A file whose directory at offset 8 has two entries with the tag code 256 (ImageWidth):
  the first with the value 1, the second with the value 2.
\<close>

definition tif_dup :: MemSource where
  "tif_dup =
     \<lparr> data =
         [0x49, 0x49, 0x2A, 0x00, 0x08, 0x00, 0x00, 0x00,
          0x02, 0x00,
          0x00, 0x01, 0x03, 0x00, 0x01, 0x00, 0x00, 0x00, 0x01, 0x00, 0x00, 0x00,
          0x00, 0x01, 0x03, 0x00, 0x01, 0x00, 0x00, 0x00, 0x02, 0x00, 0x00, 0x00,
          0x00, 0x00, 0x00, 0x00],
       chunkSize = 65536, zeroFill = False \<rparr>"

text \<open>
  The image of scenario S6: 600 by 400 pixels in tiles of 256 by 256, so 3 tiles across
  and 2 down, six tiles in row-major order. Tile \<open>k\<close> lies at offset \<open>1000 * (k + 1)\<close>
  and is \<open>100 * (k + 1)\<close> bytes long.
\<close>

definition image_600x400 :: CogImage where
  "image_600x400 =
     [''ImageWidth'' \<mapsto> Eager (Num (Fin 600)),
      ''ImageLength'' \<mapsto> Eager (Num (Fin 400)),
      ''TileWidth'' \<mapsto> Eager (Num (Fin 256)),
      ''TileLength'' \<mapsto> Eager (Num (Fin 256)),
      ''Compression'' \<mapsto> Eager (Num (Fin 50001)),
      ''TileOffsets'' \<mapsto> Eager (Arr [Fin 1000, Fin 2000, Fin 3000, Fin 4000, Fin 5000, Fin 6000]),
      ''TileByteCounts'' \<mapsto> Eager (Arr [Fin 100, Fin 200, Fin 300, Fin 400, Fin 500, Fin 600])]"

text \<open>
  An image of 2 by 2 tiles as scenario S5 leaves it after parsing: TileOffsets, four
  longs at offset 200, was stored as a closure.
\<close>

definition image_lazy :: CogImage where
  "image_lazy =
     [''ImageWidth'' \<mapsto> Eager (Num (Fin 512)),
      ''ImageLength'' \<mapsto> Eager (Num (Fin 512)),
      ''TileWidth'' \<mapsto> Eager (Num (Fin 256)),
      ''TileLength'' \<mapsto> Eager (Num (Fin 256)),
      ''Compression'' \<mapsto> Eager (Num (Fin 50001)),
      ''TileOffsets'' \<mapsto> Lazy 200 4 4,
      ''TileByteCounts'' \<mapsto> Eager (Arr [Fin 100, Fin 200, Fin 300, Fin 400])]"

section \<open>Properties of the image view\<close>

lemma Math_min_Fin: "Math_min (Fin a) (Fin b) = Fin (min a b)"
  by (simp add: Math_min_def min_def)

lemma Math_max_Fin: "Math_max (Fin a) (Fin b) = Fin (max a b)"
  by (simp add: Math_max_def max_def)

lemma length6_cases:
  "length (tp :: 'a list) = 6 \<Longrightarrow> \<exists>a b c d e f. tp = [a, b, c, d, e, f]"
  by (auto simp: numeral_eq_Suc length_Suc_conv)

lemma drop3_of_6: "length (tp :: 'a list) = 6 \<Longrightarrow> drop 3 tp = [tp ! 3, tp ! 4, tp ! 5]"
  by (drule length6_cases) (auto simp: numeral_eq_Suc)

lemma value_tag_cong: "tags f = tags n \<Longrightarrow> value_tag f t = value_tag n t"
  by (simp add: value_tag_def)

lemma tags_image_N [simp]: "tags (image_N tg) = tg"
  by (simp add: image_N_def)

lemma tags_image_F [simp]: "tags (image_F tg) = tg"
  by (simp add: image_F_def)

lemma value_tag_image_N [simp]:
  "value_tag (image_N tg) t = (case tg t of None \<Rightarrow> Null | Some x \<Rightarrow> tag_value x)"
  by (simp add: value_tag_def image_N_def)

lemma value_tag_image_F [simp]:
  "value_tag (image_F tg) t = (case tg t of None \<Rightarrow> Null | Some x \<Rightarrow> tag_value x)"
  by (simp add: value_tag_def image_F_def)

subsection \<open>The origin\<close>

text \<open>
  C7, as the code has it. When the ModelTiepoint tag holds an array of length 6, the
  origin accessor of both classes returns its elements 3, 4 and 5. When the tag is absent,
  or its value is anything but an array of length 6, the accessor of the newer class
  (with the back-reference to the facade) fails with the error that names the
  ModelTiepoint, and the accessor of the older class returns null.
\<close>

theorem origin_accessor:
  fixes f :: "'tif CogTifImage_F" and n :: CogTifImage
  shows
    "(value_tag f ModelTiepoint = Val (Arr tp) \<and> length tp = 6 \<longrightarrow>
        origin_F f = Inr [tp ! 3, tp ! 4, tp ! 5]) \<and>
     (tags f ModelTiepoint = None \<longrightarrow> origin_F f = Inl NoModelTiepoint) \<and>
     ((\<forall>xs. value_tag f ModelTiepoint = Val (Arr xs) \<longrightarrow> length xs \<noteq> 6) \<longrightarrow>
        origin_F f = Inl NoModelTiepoint) \<and>
     (value_tag n ModelTiepoint = Val (Arr tp) \<and> length tp = 6 \<longrightarrow>
        origin_N n = Some [tp ! 3, tp ! 4, tp ! 5]) \<and>
     (tags n ModelTiepoint = None \<longrightarrow> origin_N n = None) \<and>
     ((\<forall>xs. value_tag n ModelTiepoint = Val (Arr xs) \<longrightarrow> length xs \<noteq> 6) \<longrightarrow>
        origin_N n = None)"
proof (intro conjI impI)
  assume "value_tag f ModelTiepoint = Val (Arr tp) \<and> length tp = 6"
  then show "origin_F f = Inr [tp ! 3, tp ! 4, tp ! 5]"
    by (simp add: origin_F_def drop3_of_6)
next
  assume "tags f ModelTiepoint = None"
  then show "origin_F f = Inl NoModelTiepoint"
    by (simp add: origin_F_def value_tag_def)
next
  assume "\<forall>xs. value_tag f ModelTiepoint = Val (Arr xs) \<longrightarrow> length xs \<noteq> 6"
  then show "origin_F f = Inl NoModelTiepoint"
    by (auto simp: origin_F_def split: nullable.splits tagval.splits)
next
  assume "value_tag n ModelTiepoint = Val (Arr tp) \<and> length tp = 6"
  then show "origin_N n = Some [tp ! 3, tp ! 4, tp ! 5]"
    by (simp add: origin_N_def drop3_of_6)
next
  assume "tags n ModelTiepoint = None"
  then show "origin_N n = None"
    by (simp add: origin_N_def value_tag_def)
next
  assume "\<forall>xs. value_tag n ModelTiepoint = Val (Arr xs) \<longrightarrow> length xs \<noteq> 6"
  then show "origin_N n = None"
    by (auto simp: origin_N_def split: nullable.splits tagval.splits)
qed

text \<open>
  Witness for C7: the image with its origin at (100, 200), and the image without tags,
  in both classes.
\<close>

theorem origin_accessor_witness:
  "origin_F (image_F geo_tags) = Inr [Fin 100, Fin 200, Fin 0] \<and>
   origin_N (image_N geo_tags) = Some [Fin 100, Fin 200, Fin 0] \<and>
   origin_F (image_F Map.empty) = Inl NoModelTiepoint \<and>
   origin_N (image_N Map.empty) = None"
  using origin_accessor [of "image_F geo_tags"
      "[Fin 0, Fin 0, Fin 0, Fin 100, Fin 200, Fin 0]" "image_N geo_tags"]
    origin_accessor [of "image_F Map.empty" "[]" "image_N Map.empty"]
  by (simp add: geo_tags_def)

text \<open>
  Counterexample to C7 as stated: on an image without the ModelTiepoint tag, the
  accessor of the older class does not fail, it returns null.
\<close>

theorem origin_N_absent_is_null:
  "origin_N \<lparr> img_id = 0, img_offset = 8, tags = Map.empty \<rparr> = None"
  by (simp add: origin_N_def value_tag_def)

subsection \<open>The compression\<close>

text \<open>
  C8, as the code has it. When the Compression tag holds a number, the accessor returns
  the entry of the table for that code: the media type for the seven codes of the table,
  and undefined (not null) for every other code. When the tag is absent, or its value is
  not a number, the accessor returns null.
\<close>

theorem compression_accessor:
  "(value_tag img Compression = Val (Num (Fin 1)) \<longrightarrow> compression img = Val ''none'') \<and>
   (value_tag img Compression = Val (Num (Fin 5)) \<longrightarrow> compression img = Val ''image/x-lzw'') \<and>
   (value_tag img Compression = Val (Num (Fin 6)) \<longrightarrow> compression img = Val ''image/jpeg'') \<and>
   (value_tag img Compression = Val (Num (Fin 7)) \<longrightarrow> compression img = Val ''image/jpeg'') \<and>
   (value_tag img Compression = Val (Num (Fin 8)) \<longrightarrow> compression img = Val ''image/deflate'') \<and>
   (value_tag img Compression = Val (Num (Fin 34712)) \<longrightarrow> compression img = Val ''image/jp2'') \<and>
   (value_tag img Compression = Val (Num (Fin 50001)) \<longrightarrow> compression img = Val ''image/webp'') \<and>
   (value_tag img Compression = Val (Num c) \<and>
    c \<notin> {Fin 1, Fin 5, Fin 6, Fin 7, Fin 8, Fin 34712, Fin 50001} \<longrightarrow>
      compression img = Undefined) \<and>
   (tags img Compression = None \<longrightarrow> compression img = Null) \<and>
   ((\<forall>c. value_tag img Compression \<noteq> Val (Num c)) \<longrightarrow> compression img = Null)"
proof -
  have absent: "compression img = Null" if "tags img Compression = None"
    using that by (simp add: compression_def value_tag_def)
  have other: "compression img = Null" if "\<forall>c. value_tag img Compression \<noteq> Val (Num c)"
    using that by (auto simp: compression_def split: nullable.splits tagval.splits)
  have known: "compression img = table_get (code_key TiffCompression) k"
    if "value_tag img Compression = Val (Num k)" for k
    using that by (simp add: compression_def)
  have unknown: "compression img = Undefined"
    if "value_tag img Compression = Val (Num c) \<and>
        c \<notin> {Fin 1, Fin 5, Fin 6, Fin 7, Fin 8, Fin 34712, Fin 50001}"
    using that known [of c] by (cases c) (simp_all add: table_get_def TiffCompression_def)
  show ?thesis
    using absent other unknown known [of "Fin 1"] known [of "Fin 5"] known [of "Fin 6"]
      known [of "Fin 7"] known [of "Fin 8"] known [of "Fin 34712"] known [of "Fin 50001"]
    by (simp add: table_get_def TiffCompression_def)
qed

text \<open>
  Witness for C8: a WebP image, an image with the code 2 that the table does not hold,
  and an image without tags.
\<close>

theorem compression_accessor_witness:
  "compression (image_N geo_tags) = Val ''image/webp'' \<and>
   compression (image_N [Compression \<mapsto> \<lparr> tag_value = Val (Num (Fin 2)) \<rparr>]) = Undefined \<and>
   compression (image_N Map.empty) = Null"
  using compression_accessor [of "image_N geo_tags" "Fin 0"]
    compression_accessor
      [of "image_N [Compression \<mapsto> \<lparr> tag_value = Val (Num (Fin 2)) \<rparr>]" "Fin 2"]
    compression_accessor [of "image_N Map.empty" "Fin 0"]
  by (simp add: geo_tags_def)

text \<open>
  Counterexample to C8 as stated: for the code 2, which the table does not hold, the
  accessor returns undefined, which is not null.
\<close>

theorem compression_unknown_code_not_null:
  "compression \<lparr> img_id = 0, img_offset = 8,
      tags = [Compression \<mapsto> \<lparr> tag_value = Val (Num (Fin 2)) \<rparr>] \<rparr> = Undefined \<and>
   (Undefined :: string nullable) \<noteq> Null"
  by (simp add: compression_def value_tag_def table_get_def TiffCompression_def)

subsection \<open>The bounding box\<close>


lemma num_le_NaN [simp]: "\<not> num_le NaN a" "\<not> num_le a NaN"
  by (simp_all add: num_le_def)


text \<open>
  No corner is \<^verbatim>\<open>NaN\<close> when the values that it is computed from are finite, for a
  rounding that gives a number or an infinity.
\<close>

lemma corner_not_NaN:
  assumes "\<forall>r. rnd r \<noteq> NaN"
  shows "dbl_add rnd (Fin a) (dbl_mul rnd (Fin b) (Fin c)) \<noteq> NaN"
  using assms by (cases "rnd (b * c)") (simp_all add: dbl_add_def dbl_mul_def)




subsection \<open>The two classes\<close>

text \<open>
  On the same tag map, the older class returns null exactly where the newer class throws,
  and the same value everywhere else.
\<close>

lemma variants_related:
  fixes n :: CogTifImage and f :: "'tif CogTifImage_F"
  assumes "tags f = tags n"
  shows "origin_N n = (case origin_F f of Inl e \<Rightarrow> None | Inr v \<Rightarrow> Some v)"
    and "resolution_N n = (case resolution_F f of Inl e \<Rightarrow> None | Inr v \<Rightarrow> Some v)"
    and "bbox_N rnd n = (case bbox_F rnd f of Inl e \<Rightarrow> None | Inr v \<Rightarrow> Some v)"
proof -
  have vf: "value_tag f t = value_tag n t" for t
    using assms by (rule value_tag_cong)
  show o: "origin_N n = (case origin_F f of Inl e \<Rightarrow> None | Inr v \<Rightarrow> Some v)"
    by (simp add: origin_N_def origin_F_def vf split: nullable.splits tagval.splits)
  show r: "resolution_N n = (case resolution_F f of Inl e \<Rightarrow> None | Inr v \<Rightarrow> Some v)"
    by (simp add: resolution_N_def resolution_F_def vf split: nullable.splits)
  have sz: "size_img f = size_img n"
    by (simp add: size_img_def vf)
  show "bbox_N rnd n = (case bbox_F rnd f of Inl e \<Rightarrow> None | Inr v \<Rightarrow> Some v)"
    by (simp add: bbox_N_def bbox_F_def o r sz Let_def split: sum.splits)
qed

text \<open>
  C10. On the same tag map, with tie points of length 6, a pixel scale, and the image
  width and length present, the two classes return the same origin, the same resolution
  and the same bounding box: what the older class returns is what the newer one returns
  without throwing. The values of the tags are any doubles, and the arithmetic of the
  bounding box is that of doubles, whatever their rounding \<open>rnd\<close>.
\<close>

theorem image_variants_agree:
  fixes n :: CogTifImage and f :: "'tif CogTifImage_F"
  assumes same: "tags f = tags n"
    and tp: "value_tag n ModelTiepoint = Val (Arr tp)" "length tp = 6"
    and ps: "value_tag n ModelPixelScale = Val ps"
    and wh: "value_tag n ImageWidth = Val w" "value_tag n ImageHeight = Val h"
  shows "origin_F f = Inr (drop 3 tp) \<and> origin_N n = Some (drop 3 tp) \<and>
         resolution_F f = Inr (resolution_of ps) \<and>
         resolution_N n = Some (resolution_of ps) \<and>
         bbox_F rnd f =
           Inr (bbox_of rnd \<lparr> width = Val w, height = Val h \<rparr> (drop 3 tp)
                  (resolution_of ps)) \<and>
         bbox_N rnd n =
           Some (bbox_of rnd \<lparr> width = Val w, height = Val h \<rparr> (drop 3 tp)
                   (resolution_of ps))"
proof -
  have vf: "value_tag f t = value_tag n t" for t
    using same by (rule value_tag_cong)
  have o: "origin_F f = Inr (drop 3 tp)" "origin_N n = Some (drop 3 tp)"
    using tp by (simp_all add: origin_F_def origin_N_def vf)
  have r: "resolution_F f = Inr (resolution_of ps)" "resolution_N n = Some (resolution_of ps)"
    using ps by (simp_all add: resolution_F_def resolution_N_def vf)
  have sz: "size_img f = \<lparr> width = Val w, height = Val h \<rparr>"
    "size_img n = \<lparr> width = Val w, height = Val h \<rparr>"
    using wh by (simp_all add: size_img_def vf)
  show ?thesis
    by (simp add: o r sz bbox_F_def bbox_N_def)
qed

text \<open>
  Witness for C10: the two classes on the tag map of the test image, whose sums and
  products are integers, with the rounding that leaves every real as it is.
\<close>

theorem image_variants_agree_witness:
  "tags (image_F geo_tags) = tags (image_N geo_tags) \<and>
   origin_F (image_F geo_tags) = Inr [Fin 100, Fin 200, Fin 0] \<and>
   origin_N (image_N geo_tags) = Some [Fin 100, Fin 200, Fin 0] \<and>
   resolution_F (image_F geo_tags) = Inr [Val (Fin 2), Val (Fin (- 3)), Val (Fin 0)] \<and>
   resolution_N (image_N geo_tags) = Some [Val (Fin 2), Val (Fin (- 3)), Val (Fin 0)] \<and>
   bbox_F Fin (image_F geo_tags) = Inr [Fin 100, Fin 140, Fin 120, Fin 200] \<and>
   bbox_N Fin (image_N geo_tags) = Some [Fin 100, Fin 140, Fin 120, Fin 200]"
proof -
  have same: "tags (image_F geo_tags) = tags (image_N geo_tags)"
    by simp
  have tp: "value_tag (image_N geo_tags) ModelTiepoint = Val (Arr [Fin 0, Fin 0, Fin 0, Fin 100, Fin 200, Fin 0])"
    "length [Fin 0, Fin 0, Fin 0, Fin 100, Fin 200, Fin 0] = 6"
    by (simp_all add: geo_tags_def)
  have ps: "value_tag (image_N geo_tags) ModelPixelScale = Val (Arr [Fin 2, Fin 3, Fin 0])"
    by (simp add: geo_tags_def)
  have wh: "value_tag (image_N geo_tags) ImageWidth = Val (Num (Fin 10))"
    "value_tag (image_N geo_tags) ImageHeight = Val (Num (Fin 20))"
    by (simp_all add: geo_tags_def)
  show ?thesis
    using same image_variants_agree [OF same tp ps wh, where rnd = Fin]
    by (simp add: resolution_of_def bbox_of_def js_nth_def res_nth_def
        dbl_add_def dbl_mul_def Math_min_Fin Math_max_Fin)
qed

section \<open>Properties of the directory parser\<close>

subsection \<open>One entry, and the loop over the entries\<close>

text \<open>
  What an entry stores does not depend on what the image held before: the entry read
  into the empty image gives the update that it makes to any image.
\<close>

lemma readEntry_map_add:
  "readEntry src pos img s =
     (case readEntry src pos Map.empty s of
        (Inl e, s') \<Rightarrow> (Inl e, s')
      | (Inr u, s') \<Rightarrow> (Inr (img ++ u), s'))"
  by (simp add: readEntry_def await_def return_def throw_def Let_def
      split: prod.splits sum.splits option.splits)

lemma readEntry_rule:
  assumes "readEntry src pos Map.empty s = (Inr u, s')" and "u t = Some tv"
  shows "u = [t \<mapsto> tv] \<and> entry_rule src pos s t tv"
  using assms
  by (auto simp: readEntry_def entry_rule_def is_eager_def await_def return_def throw_def
      Let_def split: prod.splits sum.splits option.splits if_splits)

lemma readIfd_loop_done: "\<not> i < n \<Longrightarrow> readIfd_loop src b n i img s = (Inr img, s)"
  by (subst readIfd_loop.simps) simp

lemma readIfd_loop_fail:
  "i < n \<Longrightarrow> readEntry src (b + 12 * i) img s = (Inl e, s') \<Longrightarrow>
   readIfd_loop src b n i img s = (Inl e, s')"
  by (subst readIfd_loop.simps) simp

lemma readIfd_loop_next:
  "i < n \<Longrightarrow> readEntry src (b + 12 * i) img s = (Inr img', s') \<Longrightarrow>
   readIfd_loop src b n i img s = readIfd_loop src b n (Suc i) img' s'"
  by (subst readIfd_loop.simps) simp

text \<open>The same for the rest of the loop, by induction on the entries left.\<close>

lemma readIfd_loop_map_add:
  "readIfd_loop src b n i img s =
     (case readIfd_loop src b n i Map.empty s of
        (Inl e, s') \<Rightarrow> (Inl e, s')
      | (Inr u, s') \<Rightarrow> (Inr (img ++ u), s'))"
proof (induction "n - i" arbitrary: i img s)
  case 0
  then have "\<not> i < n" by simp
  then show ?case by (simp add: readIfd_loop_done)
next
  case (Suc k)
  then have lt: "i < n" and k: "k = n - Suc i" by simp_all
  note ih = Suc.hyps(1) [OF k]
  obtain r s1 where entry: "readEntry src (b + 12 * i) Map.empty s = (r, s1)"
    by (cases "readEntry src (b + 12 * i) Map.empty s")
  show ?case
  proof (cases r)
    case (Inl e)
    have "readEntry src (b + 12 * i) img s = (Inl e, s1)"
      using entry Inl by (simp add: readEntry_map_add [of src _ img])
    then show ?thesis
      using entry Inl lt by (simp add: readIfd_loop_fail)
  next
    case (Inr u)
    have e0: "readEntry src (b + 12 * i) img s = (Inr (img ++ u), s1)"
      using entry Inr by (simp add: readEntry_map_add [of src _ img])
    have l0: "readIfd_loop src b n i Map.empty s = readIfd_loop src b n (Suc i) u s1"
      using entry Inr lt by (simp add: readIfd_loop_next)
    have l1: "readIfd_loop src b n i img s = readIfd_loop src b n (Suc i) (img ++ u) s1"
      using e0 lt by (simp add: readIfd_loop_next)
    show ?thesis
      unfolding l0 l1
      by (subst ih [of u]) (subst ih [of "img ++ u"], simp split: prod.splits sum.splits)
  qed
qed

text \<open>The loop up to \<open>n\<close> is the loop up to \<open>j\<close>, then the loop from \<open>j\<close> on.\<close>

lemma readIfd_loop_split:
  "i \<le> j \<Longrightarrow> j \<le> n \<Longrightarrow>
   readIfd_loop src b n i img s =
     (case readIfd_loop src b j i img s of
        (Inl e, s') \<Rightarrow> (Inl e, s')
      | (Inr img', s') \<Rightarrow> readIfd_loop src b n j img' s')"
proof (induction "j - i" arbitrary: i img s)
  case 0
  then have "i = j" by simp
  then show ?case by (simp add: readIfd_loop_done)
next
  case (Suc k)
  then have lt: "i < j" "i < n" and k: "k = j - Suc i" and le: "Suc i \<le> j" by simp_all
  obtain r s1 where entry: "readEntry src (b + 12 * i) img s = (r, s1)"
    by (cases "readEntry src (b + 12 * i) img s")
  show ?case
  proof (cases r)
    case (Inl e)
    then show ?thesis using entry lt by (simp add: readIfd_loop_fail)
  next
    case (Inr img')
    then show ?thesis
      using entry lt Suc.hyps(1) [OF k le Suc.prems(2), of img' s1]
      by (simp add: readIfd_loop_next)
  qed
qed

lemma readIfd_loop_last:
  "readIfd_loop src b (Suc n) 0 img s =
     (case readIfd_loop src b n 0 img s of
        (Inl e, s') \<Rightarrow> (Inl e, s')
      | (Inr img', s') \<Rightarrow> readEntry src (b + 12 * n) img' s')"
proof -
  have one: "readIfd_loop src b (Suc n) n img' s' = readEntry src (b + 12 * n) img' s'"
    for img' s'
    by (subst readIfd_loop.simps) (simp add: readIfd_loop_done split: prod.splits sum.splits)
  show ?thesis
    using readIfd_loop_split [of 0 n "Suc n" src b img s]
    by (simp add: one split: prod.splits sum.splits)
qed

text \<open>
  Every value in the image that the loop returns was stored by one of the entries, and
  follows the rule for that entry. Induction on the number of entries.
\<close>

lemma readIfd_loop_stores:
  assumes "readIfd_loop src b n 0 Map.empty s0 = (Inr img, sN)" and "img t = Some tv"
  shows "\<exists>j before sj sj'. j < n \<and>
           readIfd_loop src b j 0 Map.empty s0 = (Inr before, sj) \<and>
           readEntry src (b + 12 * j) Map.empty sj = (Inr [t \<mapsto> tv], sj') \<and>
           entry_rule src (b + 12 * j) sj t tv"
  using assms
proof (induction n arbitrary: img sN)
  case 0
  then show ?case by (auto simp: readIfd_loop_done)
next
  case (Suc n)
  obtain r s1 where pre: "readIfd_loop src b n 0 Map.empty s0 = (r, s1)"
    by (cases "readIfd_loop src b n 0 Map.empty s0")
  from Suc.prems(1) pre obtain before where r: "r = Inr before"
    by (cases r) (simp_all add: readIfd_loop_last)
  from Suc.prems(1) pre r
  have last: "readEntry src (b + 12 * n) before s1 = (Inr img, sN)"
    by (simp add: readIfd_loop_last)
  obtain r2 s2 where alone: "readEntry src (b + 12 * n) Map.empty s1 = (r2, s2)"
    by (cases "readEntry src (b + 12 * n) Map.empty s1")
  from last alone obtain u where u: "r2 = Inr u" "img = before ++ u" "s2 = sN"
    by (cases r2) (simp_all add: readEntry_map_add [of src _ before])
  show ?case
  proof (cases "u t")
    case None
    then have t: "before t = Some tv"
      using Suc.prems(2) u by (simp add: map_add_def)
    have "readIfd_loop src b n 0 Map.empty s0 = (Inr before, s1)"
      using pre r by simp
    from Suc.IH [OF this t]
    obtain j bf sj sj' where "j < n"
      "readIfd_loop src b j 0 Map.empty s0 = (Inr bf, sj)"
      "readEntry src (b + 12 * j) Map.empty sj = (Inr [t \<mapsto> tv], sj')"
      "entry_rule src (b + 12 * j) sj t tv"
      by blast
    then show ?thesis
      using less_SucI by blast
  next
    case (Some tv')
    then have "tv' = tv"
      using Suc.prems(2) u by (simp add: map_add_def)
    with Some alone u readEntry_rule [of src "b + 12 * n" s1 u sN t tv]
    have "readEntry src (b + 12 * n) Map.empty s1 = (Inr [t \<mapsto> tv], sN)"
      "entry_rule src (b + 12 * n) s1 t tv"
      by simp_all
    with pre r show ?thesis
      by blast
  qed
qed

lemma getTileRaw_images: "images (snd (getTileRaw src L x y z)) = images L"
  by (simp add: getTileRaw_def Let_def split: option.splits sum.splits prod.splits)

subsection \<open>Evaluating the in-memory source\<close>

lemmas mem_eval =
  memSource_def mem_uint_def mem_read_def mem_bytes_def mem_hasBytes_def mem_readType_def
  await_def return_def throw_def chunk_ids_def TIFF_TAG_def TIFF_SIZE_def collapse_def

lemma decode_elems_numeral:
  "decode_elems (numeral k) sz bs =
     Fin (real (le_nat (take sz bs))) # decode_elems (pred_numeral k) sz (drop sz bs)"
  by (simp add: numeral_eq_Suc)

lemma le_nat_zeros [simp]: "le_nat (replicate n 0) = 0"
  by (induction n) simp_all

lemma three_parse:
  "readIfd (memSource tif_three) 8 {0} =
     (Inr \<lparr> nextOffset = 0, ifd_image = ifd_three \<rparr>, {0, 1})"
  by (simp add: readIfd_def readIfd_loop.simps readEntry_def mem_eval tif_three_def
      decode_elems_numeral ifd_three_def) auto

lemma dup_count: "uint16 (memSource tif_dup) 8 {0} = (Inr 2, {0})"
  by (simp add: mem_eval tif_dup_def)

lemma dup_first:
  "readEntry (memSource tif_dup) 10 Map.empty {0} =
     (Inr [''ImageWidth'' \<mapsto> Eager (Num (Fin 1))], {0})"
  by (simp add: readEntry_def mem_eval tif_dup_def decode_elems_numeral)

lemma dup_second:
  "readEntry (memSource tif_dup) 22 Map.empty {0} =
     (Inr [''ImageWidth'' \<mapsto> Eager (Num (Fin 2))], {0})"
  by (simp add: readEntry_def mem_eval tif_dup_def decode_elems_numeral)

lemma dup_parse:
  "readIfd (memSource tif_dup) 8 {0} =
     (Inr \<lparr> nextOffset = 0, ifd_image = [''ImageWidth'' \<mapsto> Eager (Num (Fin 2))] \<rparr>, {0})"
  by (simp add: readIfd_def readIfd_loop.simps readEntry_def mem_eval tif_dup_def
      decode_elems_numeral)

subsection \<open>Eager and lazy tags\<close>

text \<open>
  C4. After a directory is parsed, every tag \<open>t\<close> that the image holds, with the stored
  value \<open>tv\<close>, was stored by an entry \<open>j\<close> of the directory that carries the tag \<open>t\<close>,
  which the parser reached in some state \<open>sj\<close> of the source, and \<open>tv\<close> follows the
  rule of that entry at that time: it is eager if \<open>count * type_size \<le> 4\<close> or if
  \<open>has_bytes(value_offset, value_length)\<close> held, and otherwise it is the lazy value that
  carries \<open>(value_offset, type, count)\<close>. Later, \<open>getTileRaw\<close> leaves the images as they
  are, so no stored tag ever goes back from eager to lazy (in this facade no stored tag
  changes at all: reading further directories only appends images, see
  \<open>processIfd_appends\<close> below).
\<close>

theorem readIfd_eager_iff:
  assumes parse: "readIfd src offset s = (Inr ifd, sE)"
    and stored: "ifd_image ifd t = Some tv"
  shows "(\<exists>n s0 j before sj sj'.
            uint16 src offset s = (Inr n, s0) \<and> j < n \<and>
            readIfd_loop src (offset + 2) j 0 Map.empty s0 = (Inr before, sj) \<and>
            readEntry src (offset + 2 + 12 * j) Map.empty sj = (Inr [t \<mapsto> tv], sj') \<and>
            entry_rule src (offset + 2 + 12 * j) sj t tv) \<and>
         images (snd (getTileRaw src L x y z)) = images L"
proof -
  obtain r s0 where cnt: "uint16 src offset s = (r, s0)"
    by (cases "uint16 src offset s")
  with parse obtain n where n: "r = Inr n"
    by (cases r) (simp_all add: readIfd_def await_def)
  obtain r1 sN where loop: "readIfd_loop src (offset + 2) n 0 Map.empty s0 = (r1, sN)"
    by (cases "readIfd_loop src (offset + 2) n 0 Map.empty s0")
  with parse cnt n obtain img where img: "r1 = Inr img"
    by (cases r1) (simp_all add: readIfd_def await_def Let_def)
  have "ifd_image ifd = img"
    using parse cnt n loop img
    by (auto simp: readIfd_def await_def return_def Let_def split: prod.splits sum.splits)
  with stored have t: "img t = Some tv" by simp
  have "readIfd_loop src (offset + 2) n 0 Map.empty s0 = (Inr img, sN)"
    using loop img by simp
  from readIfd_loop_stores [OF this t]
  obtain j before sj sj' where "j < n"
    "readIfd_loop src (offset + 2) j 0 Map.empty s0 = (Inr before, sj)"
    "readEntry src (offset + 2 + 12 * j) Map.empty sj = (Inr [t \<mapsto> tv], sj')"
    "entry_rule src (offset + 2 + 12 * j) sj t tv"
    by auto
  with cnt n show ?thesis
    by (simp add: getTileRaw_images) blast
qed

text \<open>
  Witness for C4: the directory of \<open>tif_three\<close>, parsed with chunk 0 ready. TileOffsets
  is stored lazy (its values lie in chunk 6) and TileByteCounts eager (its values lie in
  chunk 1, which was fetched to read the third entry).
\<close>

theorem readIfd_eager_iff_witness:
  "readIfd (memSource tif_three) 8 {0} =
     (Inr \<lparr> nextOffset = 0, ifd_image = ifd_three \<rparr>, {0, 1}) \<and>
   ifd_three ''TileOffsets'' = Some (Lazy 200 4 4) \<and>
   ifd_three ''TileByteCounts'' = Some (Eager (Arr [Fin 10, Fin 20])) \<and>
   (\<exists>n s0 j before sj sj'.
      uint16 (memSource tif_three) 8 {0} = (Inr n, s0) \<and> j < n \<and>
      readIfd_loop (memSource tif_three) (8 + 2) j 0 Map.empty s0 = (Inr before, sj) \<and>
      readEntry (memSource tif_three) (8 + 2 + 12 * j) Map.empty sj =
        (Inr [''TileOffsets'' \<mapsto> Lazy 200 4 4], sj') \<and>
      entry_rule (memSource tif_three) (8 + 2 + 12 * j) sj ''TileOffsets'' (Lazy 200 4 4)) \<and>
   (\<exists>n s0 j before sj sj'.
      uint16 (memSource tif_three) 8 {0} = (Inr n, s0) \<and> j < n \<and>
      readIfd_loop (memSource tif_three) (8 + 2) j 0 Map.empty s0 = (Inr before, sj) \<and>
      readEntry (memSource tif_three) (8 + 2 + 12 * j) Map.empty sj =
        (Inr [''TileByteCounts'' \<mapsto> Eager (Arr [Fin 10, Fin 20])], sj') \<and>
      entry_rule (memSource tif_three) (8 + 2 + 12 * j) sj ''TileByteCounts''
        (Eager (Arr [Fin 10, Fin 20])))"
proof -
  have lazy: "ifd_image \<lparr> nextOffset = 0, ifd_image = ifd_three \<rparr> ''TileOffsets'' =
      Some (Lazy 200 4 4)"
    by (simp add: ifd_three_def)
  have eager: "ifd_image \<lparr> nextOffset = 0, ifd_image = ifd_three \<rparr> ''TileByteCounts'' =
      Some (Eager (Arr [Fin 10, Fin 20]))"
    by (simp add: ifd_three_def)
  show ?thesis
    using three_parse lazy eager
      readIfd_eager_iff [OF three_parse lazy] readIfd_eager_iff [OF three_parse eager]
    by simp
qed

subsection \<open>A tag code that appears twice\<close>

text \<open>
  C6, as the code has it. When entry \<open>j\<close> of a directory carries the known tag \<open>t\<close>
  with the value \<open>tv\<close>, and no later entry carries \<open>t\<close>, then the parsed image holds
  \<open>tv\<close> under \<open>t\<close>, whatever the entries before \<open>j\<close> carry: of two entries with the
  same tag code, the image keeps the value of the last one. Here \<open>before\<close>, \<open>u\<close> and
  \<open>after\<close> are what the entries before \<open>j\<close>, the entry \<open>j\<close> and the entries after
  \<open>j\<close> store, each read in the state in which the parser reaches it.
\<close>

theorem readIfd_last_occurrence:
  assumes parse: "readIfd src offset s = (Inr ifd, sE)"
    and n: "uint16 src offset s = (Inr n, s0)" "j < n"
    and before: "readIfd_loop src (offset + 2) j 0 Map.empty s0 = (Inr before, sj)"
    and entry: "readEntry src (offset + 2 + 12 * j) Map.empty sj = (Inr u, sj')"
      "u t = Some tv"
    and after: "readIfd_loop src (offset + 2) n (Suc j) Map.empty sj' = (Inr after, sN)"
      "after t = None"
  shows "ifd_image ifd t = Some tv"
proof -
  have e: "readEntry src (offset + 2 + 12 * j) before sj = (Inr (before ++ u), sj')"
    using entry(1) by (simp add: readEntry_map_add [of src _ before])
  have upto: "readIfd_loop src (offset + 2) (Suc j) 0 Map.empty s0 = (Inr (before ++ u), sj')"
    using before e by (simp add: readIfd_loop_last)
  have rest: "readIfd_loop src (offset + 2) n (Suc j) (before ++ u) sj' =
      (Inr (before ++ u ++ after), sN)"
    using after(1) by (simp add: readIfd_loop_map_add [of src _ _ _ "before ++ u"])
  have "readIfd_loop src (offset + 2) n 0 Map.empty s0 = (Inr (before ++ u ++ after), sN)"
    using readIfd_loop_split [of 0 "Suc j" n src "offset + 2" Map.empty s0] n(2) upto rest
    by simp
  then have "ifd_image ifd = before ++ u ++ after"
    using parse n(1)
    by (auto simp: readIfd_def await_def return_def Let_def split: prod.splits sum.splits)
  then show ?thesis
    using entry(2) after(2) by (simp add: map_add_def)
qed

text \<open>
  Witness for C6: the directory of \<open>tif_dup\<close>. Its entry 0 carries ImageWidth 1, its
  entry 1 (the last) carries ImageWidth 2, and the parsed image holds 2.
\<close>

theorem readIfd_last_occurrence_witness:
  "readIfd (memSource tif_dup) 8 {0} =
     (Inr \<lparr> nextOffset = 0, ifd_image = [''ImageWidth'' \<mapsto> Eager (Num (Fin 2))] \<rparr>, {0}) \<and>
   uint16 (memSource tif_dup) 8 {0} = (Inr 2, {0}) \<and> (1 :: nat) < 2 \<and>
   readIfd_loop (memSource tif_dup) (8 + 2) 1 0 Map.empty {0} =
     (Inr [''ImageWidth'' \<mapsto> Eager (Num (Fin 1))], {0}) \<and>
   readEntry (memSource tif_dup) (8 + 2 + 12 * 1) Map.empty {0} =
     (Inr [''ImageWidth'' \<mapsto> Eager (Num (Fin 2))], {0}) \<and>
   readIfd_loop (memSource tif_dup) (8 + 2) 2 (Suc 1) Map.empty {0} = (Inr Map.empty, {0}) \<and>
   ifd_image \<lparr> nextOffset = 0, ifd_image = [''ImageWidth'' \<mapsto> Eager (Num (Fin 2))] \<rparr>
     ''ImageWidth'' = Some (Eager (Num (Fin 2)))"
proof -
  have lt: "(1 :: nat) < 2" by simp
  have before: "readIfd_loop (memSource tif_dup) (8 + 2) 1 0 Map.empty {0} =
      (Inr [''ImageWidth'' \<mapsto> Eager (Num (Fin 1))], {0})"
    using dup_first by (simp add: readIfd_loop.simps)
  have entry: "readEntry (memSource tif_dup) (8 + 2 + 12 * 1) Map.empty {0} =
      (Inr [''ImageWidth'' \<mapsto> Eager (Num (Fin 2))], {0})"
    using dup_second by simp
  have val: "[''ImageWidth'' \<mapsto> Eager (Num (Fin 2))] ''ImageWidth'' = Some (Eager (Num (Fin 2)))"
    by simp
  have after: "readIfd_loop (memSource tif_dup) (8 + 2) 2 (Suc 1) Map.empty {0} =
      (Inr Map.empty, {0})"
    by (simp add: readIfd_loop.simps)
  have none: "(Map.empty :: CogImage) ''ImageWidth'' = None"
    by simp
  from readIfd_last_occurrence [OF dup_parse dup_count lt before entry val after none]
  show ?thesis
    using dup_parse dup_count before entry after by simp
qed

text \<open>
  Counterexample to C6 as stated: in the directory of \<open>tif_dup\<close> the first entry with
  the tag code 256 decodes to 1, and the parsed image holds 2, the value of the later
  entry.
\<close>

theorem readIfd_duplicate_keeps_last:
  "fst (readEntry (memSource tif_dup) 10 Map.empty {0}) =
     Inr [''ImageWidth'' \<mapsto> Eager (Num (Fin 1))] \<and>
   fst (readIfd (memSource tif_dup) 8 {0}) =
     Inr \<lparr> nextOffset = 0, ifd_image = [''ImageWidth'' \<mapsto> Eager (Num (Fin 2))] \<rparr> \<and>
   Eager (Num (Fin 2)) \<noteq> Eager (Num (Fin 1))"
  by (simp add: readIfd_def readIfd_loop.simps readEntry_def mem_eval tif_dup_def
      decode_elems_numeral)

section \<open>Properties of the facade\<close>

subsection \<open>The minimal header\<close>

text \<open>
  \<open>processIfd\<close> only appends to the images: it leaves the images it found as they
  are, and every directory it reads adds one, so a call that returns without an error has
  added at least one. After \<open>init\<close> has succeeded, the images are never empty. The
  proof is by the induction rule of the recursion.
\<close>

lemma processIfd_appends:
  fixes src :: "'s CogSource"
  assumes "processIfd src offset L = Some y"
  shows "\<exists>more. images (snd y) = images L @ more \<and> (fst y = Inr () \<longrightarrow> more \<noteq> [])"
proof (rule processIfd.raw_induct
    [where P = "\<lambda>(src :: 's CogSource) offset L y.
        \<exists>more. images (snd y) = images L @ more \<and> (fst y = Inr () \<longrightarrow> more \<noteq> [])",
      OF _ assms])
  fix f :: "'s CogSource \<Rightarrow> nat \<Rightarrow> 's CogLayer \<Rightarrow> ((error + unit) \<times> 's CogLayer) option"
  fix src :: "'s CogSource" and offset L y
  assume IH: "\<And>src offset L y. f src offset L = Some y \<Longrightarrow>
      \<exists>more. images (snd y) = images L @ more \<and> (fst y = Inr () \<longrightarrow> more \<noteq> [])"
  assume step: "(case readIfd src offset (source L) of
        (Inl e, s') \<Rightarrow> Some (Inl e, L\<lparr> source := s' \<rparr>)
      | (Inr ifd, s') \<Rightarrow>
          (let L' = L\<lparr> source := s', images := images L @ [ifd_image ifd] \<rparr> in
           if nextOffset ifd \<noteq> 0 then f src (nextOffset ifd) L'
           else Some (Inr (), L'))) = Some y"
  obtain q s' where rd: "readIfd src offset (source L) = (q, s')"
    by (cases "readIfd src offset (source L)")
  show "\<exists>more. images (snd y) = images L @ more \<and> (fst y = Inr () \<longrightarrow> more \<noteq> [])"
  proof (cases q)
    case (Inl e)
    with step rd show ?thesis by auto
  next
    case (Inr ifd)
    let ?L = "L\<lparr> source := s', images := images L @ [ifd_image ifd] \<rparr>"
    show ?thesis
    proof (cases "nextOffset ifd = 0")
      case True
      with step rd Inr have "y = (Inr (), ?L)"
        by auto
      then show ?thesis by simp
    next
      case False
      with step rd Inr have "f src (nextOffset ifd) ?L = Some y"
        by (simp add: Let_def)
      from IH [OF this] show ?thesis
        by auto
    qed
  qed
qed

lemma init_pushes_an_image:
  assumes "init src L = Some (Inr (), L')"
  shows "images L' \<noteq> []"
proof -
  from assms obtain L3 offset where "processIfd src offset L3 = Some (Inr (), L')"
    by (auto simp: init_def fetchHeader_def Let_def split: prod.splits sum.splits if_splits)
  from processIfd_appends [OF this] show ?thesis
    by auto
qed

text \<open>
  C5, as the code has it. On a source that answers as the ten bytes of the minimal header
  do (byte order \<open>0x4949\<close>, version 42, first directory at 8, and a tag count of 0
  there), for which \<open>has_bytes(8)\<close> holds once the header has been read (the chunk
  that holds the first directory is ready), and that answers 0 to the read of the next
  offset at byte 10, which lies past the ten bytes, \<open>init\<close> returns, the version is 42,
  and the images are one image without tags: the directory with no entries is pushed as
  an image.
\<close>

theorem init_minimal_header:
  assumes "uint16 src 0 s = (Inr 0x4949, s1)"
    and "uint16 src 2 s1 = (Inr 42, s2)"
    and "uint32 src 4 s2 = (Inr 8, s3)"
    and "hasBytes src 8 None s3"
    and "uint16 src 8 s3 = (Inr 0, s4)"
    and "uint32 src 10 s4 = (Inr 0, s5)"
  shows "init src (new_CogLayer s) =
           Some (Inr (), \<lparr> source = s5, version = Some 42, isLittleEndian = Some True,
                          isBigTiff = False, images = [Map.empty] \<rparr>)"
proof -
  have ifd: "readIfd src 8 s3 = (Inr \<lparr> nextOffset = 0, ifd_image = Map.empty \<rparr>, s5)"
    using assms(5,6)
    by (simp add: readIfd_def await_def return_def readIfd_loop_done)
  have "processIfd src 8 \<lparr> source = s3, version = Some 42, isLittleEndian = Some True,
          isBigTiff = False, images = [] \<rparr> =
        Some (Inr (), \<lparr> source = s5, version = Some 42, isLittleEndian = Some True,
                       isBigTiff = False, images = [Map.empty] \<rparr>)"
    by (subst processIfd.simps) (simp add: ifd)
  then show ?thesis
    using assms(1-4)
    by (simp add: init_def fetchHeader_def new_CogLayer_def ENDIAN_LITTLE_def
        VERSION_TIFF_def VERSION_BIGTIFF_def)
qed

text \<open>
  Witness for C5: the ten bytes in a source that reads past its end as zero.
\<close>

theorem init_minimal_header_witness:
  "uint16 (memSource S1_zero_fill) 0 {} = (Inr 0x4949, {0}) \<and>
   uint16 (memSource S1_zero_fill) 2 {0} = (Inr 42, {0}) \<and>
   uint32 (memSource S1_zero_fill) 4 {0} = (Inr 8, {0}) \<and>
   hasBytes (memSource S1_zero_fill) 8 None {0} \<and>
   uint16 (memSource S1_zero_fill) 8 {0} = (Inr 0, {0}) \<and>
   uint32 (memSource S1_zero_fill) 10 {0} = (Inr 0, {0}) \<and>
   init (memSource S1_zero_fill) (new_CogLayer {}) =
     Some (Inr (), \<lparr> source = {0}, version = Some 42, isLittleEndian = Some True,
                    isBigTiff = False, images = [Map.empty] \<rparr>)"
proof -
  have 1: "uint16 (memSource S1_zero_fill) 0 {} = (Inr 0x4949, {0})"
    and 2: "uint16 (memSource S1_zero_fill) 2 {0} = (Inr 42, {0})"
    and 3: "uint32 (memSource S1_zero_fill) 4 {0} = (Inr 8, {0})"
    and 4: "hasBytes (memSource S1_zero_fill) 8 None {0}"
    and 5: "uint16 (memSource S1_zero_fill) 8 {0} = (Inr 0, {0})"
    and 6: "uint32 (memSource S1_zero_fill) 10 {0} = (Inr 0, {0})"
    by (simp_all add: mem_eval S1_zero_fill_def S1_bytes_def)
  show ?thesis
    using 1 2 3 4 5 6 init_minimal_header [OF 1 2 3 4 5 6] by simp
qed

text \<open>
  Counterexample to C5 as stated: on the ten bytes, a source that refuses to read past
  its end makes \<open>init\<close> fail at the read of the next offset, and a source that reads
  zeros there makes it return with one image. In neither case does \<open>init\<close> succeed
  with no image.
\<close>

theorem init_S1_images_not_empty:
  "init (memSource S1_strict) (new_CogLayer {}) =
     Some (Inl (SourceError 10 4),
           \<lparr> source = {0}, version = Some 42, isLittleEndian = Some True,
             isBigTiff = False, images = [] \<rparr>) \<and>
   init (memSource S1_zero_fill) (new_CogLayer {}) =
     Some (Inr (),
           \<lparr> source = {0}, version = Some 42, isLittleEndian = Some True,
             isBigTiff = False, images = [Map.empty] \<rparr>)"
proof -
  have strict: "readIfd (memSource S1_strict) 8 {0} = (Inl (SourceError 10 4), {0})"
    by (simp add: readIfd_def readIfd_loop.simps mem_eval S1_strict_def S1_bytes_def)
  have zero: "readIfd (memSource S1_zero_fill) 8 {0} =
      (Inr \<lparr> nextOffset = 0, ifd_image = Map.empty \<rparr>, {0})"
    by (simp add: readIfd_def readIfd_loop.simps mem_eval S1_zero_fill_def S1_bytes_def)
  have p1: "processIfd (memSource S1_strict) 8 \<lparr> source = {0}, version = Some 42,
        isLittleEndian = Some True, isBigTiff = False, images = [] \<rparr> =
      Some (Inl (SourceError 10 4), \<lparr> source = {0}, version = Some 42,
        isLittleEndian = Some True, isBigTiff = False, images = [] \<rparr>)"
    by (subst processIfd.simps) (simp add: strict)
  have p2: "processIfd (memSource S1_zero_fill) 8 \<lparr> source = {0}, version = Some 42,
        isLittleEndian = Some True, isBigTiff = False, images = [] \<rparr> =
      Some (Inr (), \<lparr> source = {0}, version = Some 42,
        isLittleEndian = Some True, isBigTiff = False, images = [Map.empty] \<rparr>)"
    by (subst processIfd.simps) (simp add: zero)
  have h1: "fetchHeader (memSource S1_strict) (new_CogLayer {}) =
      processIfd (memSource S1_strict) 8 \<lparr> source = {0}, version = Some 42,
        isLittleEndian = Some True, isBigTiff = False, images = [] \<rparr>"
    by (simp add: fetchHeader_def new_CogLayer_def ENDIAN_LITTLE_def VERSION_TIFF_def
        VERSION_BIGTIFF_def mem_eval S1_strict_def S1_bytes_def)
  have h2: "fetchHeader (memSource S1_zero_fill) (new_CogLayer {}) =
      processIfd (memSource S1_zero_fill) 8 \<lparr> source = {0}, version = Some 42,
        isLittleEndian = Some True, isBigTiff = False, images = [] \<rparr>"
    by (simp add: fetchHeader_def new_CogLayer_def ENDIAN_LITTLE_def VERSION_TIFF_def
        VERSION_BIGTIFF_def mem_eval S1_zero_fill_def S1_bytes_def)
  show ?thesis
    by (simp add: init_def h1 h2 p1 p2)
qed

subsection \<open>The tile index\<close>

text \<open>The tile grid of the image of scenario S6: 3 tiles across, 2 down.\<close>

lemma tileCount_600x400:
  "tileCount (image_N tags_600x400) = \<lparr> nx = Fin 3, ny = Fin 2, total = Fin 6 \<rparr>"
  by (simp add: tileCount_def size_img_def tileInfo_def tags_600x400_def Let_def)

text \<open>
  C1 does not hold of the code. In the image of 3 by 2 tiles, \<open>getTileRaw(2, 1, 0)\<close>
  asks the source for the bytes at \<open>TileOffsets[4]\<close> with the length
  \<open>TileByteCounts[4]\<close>: the index is \<open>y * 2 + x\<close>, with the number of tile rows as
  the stride, where the tile at column 2 of row 1 is the tile \<open>1 * 3 + 2 = 5\<close> of the
  row-major order, at another offset.
\<close>

theorem getTileRaw_row_stride:
  "getTileRaw src (L\<lparr> images := [image_600x400] \<rparr>) 2 1 0 =
     tile_result (L\<lparr> images := [image_600x400] \<rparr>) (Some ''image/webp'')
       (getBytes src (Val (Fin 5000)) (Val (Fin 500)) (source L)) \<and>
   prop_index (image_600x400 ''TileOffsets'') (Fin 4) = Inr (Val (Fin 5000)) \<and>
   prop_index (image_600x400 ''TileOffsets'') (Fin (1 * 3 + 2)) = Inr (Val (Fin 6000))"
  by (simp add: getTileRaw_def images_at_def image_600x400_def TIFF_COMPRESSION_def
      TiffCompression_def js_nth_def tile_result_def Let_def)

text \<open>
  C2 does not hold of the code. In the image of 3 by 2 tiles, \<open>getTileRaw(3, 0, 0)\<close>,
  with \<open>x\<close> equal to the number of tile columns, does not fail: it asks the source for
  the tile at index 3, the first tile of the second row. And \<open>getTileRaw(2, 2, 0)\<close>,
  with \<open>y\<close> equal to the number of tile rows, reaches the index 6, the length of the
  arrays, passes the test \<open>idx > length\<close> and asks the source for bytes at an undefined
  offset.
\<close>

theorem getTileRaw_no_range_check:
  "getTileRaw src (L\<lparr> images := [image_600x400] \<rparr>) 3 0 0 =
     tile_result (L\<lparr> images := [image_600x400] \<rparr>) (Some ''image/webp'')
       (getBytes src (Val (Fin 4000)) (Val (Fin 400)) (source L)) \<and>
   getTileRaw src (L\<lparr> images := [image_600x400] \<rparr>) 2 2 0 =
     tile_result (L\<lparr> images := [image_600x400] \<rparr>) (Some ''image/webp'')
       (getBytes src Undefined Undefined (source L))"
  by (simp add: getTileRaw_def images_at_def image_600x400_def TIFF_COMPRESSION_def
      TiffCompression_def js_nth_def tile_result_def Let_def)

text \<open>
  C3 does not hold of the code. On an image whose TileOffsets was stored lazy,
  \<open>getTileRaw(0, 0, 0)\<close> does not call the closure: it reads the element 0 of the
  closure, which is undefined, and asks the source for bytes at an undefined offset; the
  image is left as it was. For every other tile the index exceeds the \<open>length\<close> of the
  closure, which is 0, and the call fails.
\<close>

theorem getTileRaw_lazy_not_resolved:
  "getTileRaw src (L\<lparr> images := [image_lazy] \<rparr>) 0 0 0 =
     tile_result (L\<lparr> images := [image_lazy] \<rparr>) (Some ''image/webp'')
       (getBytes src Undefined (Val (Fin 100)) (source L)) \<and>
   fst (getTileRaw src (L\<lparr> images := [image_lazy] \<rparr>) 1 0 0) = Inl (TileDoesNotExist 1 0 0)"
  by (simp add: getTileRaw_def images_at_def image_lazy_def TIFF_COMPRESSION_def
      TiffCompression_def js_nth_def tile_result_def Let_def)

end
